theory Spec2Isabelle
  imports Main "HOL-Library.Word"
begin

section \<open>Virtual memory: physical pages, VM objects and regions\<close>

text \<open>
  A shallow embedding of \<^verbatim>\<open>kernel/vm/AnonymousVMObject.cpp\<close> and
  \<^verbatim>\<open>kernel/vm/Region.cpp\<close>. Every function threads the state it touches explicitly.
  A failed \<^verbatim>\<open>VERIFY\<close>, a \<^verbatim>\<open>PANIC\<close>, a null dereference and an index past the end
  of a container halt the kernel: they are the value \<open>KernelPanic\<close>.
\<close>

datatype 'a outcome = KernelPanic | Returns 'a

text \<open>The page size; \<^verbatim>\<open>Paging.h\<close> splits an address 12 bits above its low end.\<close>

definition PAGE_SIZE :: nat where
  "PAGE_SIZE = 4096"

subsection \<open>Physical pages\<close>

text \<open>
  A \<^verbatim>\<open>PhysicalPage\<close> object is compared by identity: the two sentinels of the memory
  manager, and every other page named by its physical address.
\<close>

datatype PhysicalPage = SharedZeroPage | LazyCommittedPage | UserPage nat

definition is_shared_zero_page :: "PhysicalPage \<Rightarrow> bool" where
  "is_shared_zero_page p = (p = SharedZeroPage)"

definition is_lazy_committed_page :: "PhysicalPage \<Rightarrow> bool" where
  "is_lazy_committed_page p = (p = LazyCommittedPage)"

text \<open>A slot is a \<^verbatim>\<open>RefPtr<PhysicalPage>\<close>: null or a page.\<close>

type_synonym page_slot = "PhysicalPage option"

definition is_sentinel_slot :: "page_slot \<Rightarrow> bool" where
  "is_sentinel_slot s = (s = Some SharedZeroPage \<or> s = Some LazyCommittedPage)"

subsection \<open>The memory manager\<close>

text \<open>
  Modelled from the spec: the page table entry that \<^verbatim>\<open>Region.cpp\<close> writes through is
  not in the sources (\<^verbatim>\<open>Paging.h\<close> declares the bit fields of another tree). The inbound
  interface has "PTE field setters for present/writable/user/cache/execute/physical-base";
  the fields are named for the setters the code calls, and \<^verbatim>\<open>clear\<close> zeroes the entry.
\<close>

record PageTableEntry =
  pte_present :: bool
  pte_writable :: bool
  pte_user_allowed :: bool
  pte_cache_disabled :: bool
  pte_execute_disabled :: bool
  pte_physical_page_base :: nat

definition pte_clear :: PageTableEntry where
  "pte_clear = \<lparr>pte_present = False, pte_writable = False, pte_user_allowed = False,
     pte_cache_disabled = False, pte_execute_disabled = False, pte_physical_page_base = 0\<rparr>"

text \<open>
  Modelled from the spec: \<^verbatim>\<open>MemoryManager\<close> is not in the sources. The record is the
  global state behind \<^verbatim>\<open>MM\<close>: the commit accounting, the reference counts and
  contents of the physical pages, the page tables of every page directory (keyed by
  directory and virtual address), the \<^verbatim>\<open>CommittedCowPages\<close> objects (keyed by address,
  holding their number of committed pages), and what the processor reports.
  "\<^verbatim>\<open>ensure_pte(pd, vaddr)\<close> lazily instantiates page-table levels": it gives the entry
  of an address, or null where \<open>pte_unavailable\<close> holds (the code returns false then).
\<close>

record MemoryManager =
  user_physical_pages_uncommitted :: nat
  user_physical_pages_committed :: nat
  next_user_page :: nat
  ref_count :: "PhysicalPage \<Rightarrow> nat"
  page_bytes :: "PhysicalPage \<Rightarrow> 8 word list"
  shared_zero_paddr :: nat
  lazy_committed_paddr :: nat
  page_tables :: "nat \<times> nat \<Rightarrow> PageTableEntry"
  pte_unavailable :: "nat \<times> nat \<Rightarrow> bool"
  cow_pools :: "nat \<Rightarrow> nat"
  next_cow_pool :: nat
  has_nx :: bool
  user_range_ceiling :: nat

text \<open>The physical address of a page; the sentinels are pages of the memory manager.\<close>

definition paddr :: "MemoryManager \<Rightarrow> PhysicalPage \<Rightarrow> nat" where
  "paddr mm p = (case p of SharedZeroPage \<Rightarrow> shared_zero_paddr mm
                 | LazyCommittedPage \<Rightarrow> lazy_committed_paddr mm
                 | UserPage a \<Rightarrow> a)"

text \<open>
  Modelled from the spec: \<^verbatim>\<open>MemoryManager::commit_user_physical_pages\<close> and
  \<^verbatim>\<open>uncommit_user_physical_pages\<close> are not in the sources. "\<^verbatim>\<open>commit(n)\<close> /
  \<^verbatim>\<open>uncommit(n)\<close>: reserve or release n pages from a global pool. \<^verbatim>\<open>commit\<close> fails if
  pool is exhausted."
\<close>

definition commit_user_physical_pages :: "MemoryManager \<Rightarrow> nat \<Rightarrow> MemoryManager option" where
  "commit_user_physical_pages mm n =
     (if user_physical_pages_uncommitted mm < n then None
      else Some (mm\<lparr>user_physical_pages_uncommitted := user_physical_pages_uncommitted mm - n,
                     user_physical_pages_committed := user_physical_pages_committed mm + n\<rparr>))"

definition uncommit_user_physical_pages :: "MemoryManager \<Rightarrow> nat \<Rightarrow> MemoryManager" where
  "uncommit_user_physical_pages mm n =
     mm\<lparr>user_physical_pages_uncommitted := user_physical_pages_uncommitted mm + n,
        user_physical_pages_committed := user_physical_pages_committed mm - n\<rparr>"

text \<open>
  Modelled from the spec: the reference counting of \<^verbatim>\<open>RefPtr<PhysicalPage>\<close> is not in
  the sources. "Dropping refcount to zero of a Normal frame returns it to PFA; SharedZero
  and LazyCommitted sentinels are never freed."
\<close>

definition ref_page :: "MemoryManager \<Rightarrow> PhysicalPage \<Rightarrow> MemoryManager" where
  "ref_page mm p = mm\<lparr>ref_count := (ref_count mm)(p := ref_count mm p + 1)\<rparr>"

definition unref_page :: "MemoryManager \<Rightarrow> PhysicalPage \<Rightarrow> MemoryManager" where
  "unref_page mm p =
     (let mm' = mm\<lparr>ref_count := (ref_count mm)(p := ref_count mm p - 1)\<rparr>
      in case p of
           UserPage a \<Rightarrow>
             if ref_count mm p = 1
             then mm'\<lparr>user_physical_pages_uncommitted := user_physical_pages_uncommitted mm + 1\<rparr>
             else mm'
         | _ \<Rightarrow> mm')"

definition ref_slot :: "MemoryManager \<Rightarrow> page_slot \<Rightarrow> MemoryManager" where
  "ref_slot mm s = (case s of None \<Rightarrow> mm | Some p \<Rightarrow> ref_page mm p)"

definition unref_slot :: "MemoryManager \<Rightarrow> page_slot \<Rightarrow> MemoryManager" where
  "unref_slot mm s = (case s of None \<Rightarrow> mm | Some p \<Rightarrow> unref_page mm p)"

text \<open>
  Assigning a page reference to a slot (\<^verbatim>\<open>phys_page = MM.shared_zero_page()\<close>) takes a
  reference to the new page and drops the slot's old one.
\<close>

definition assign_slot :: "MemoryManager \<Rightarrow> page_slot \<Rightarrow> PhysicalPage \<Rightarrow> MemoryManager" where
  "assign_slot mm old new = unref_slot (ref_page mm new) old"

text \<open>
  Modelled from the spec: the allocator is not in the sources.
  "\<^verbatim>\<open>allocate_user_frame(zero_fill)\<close>: frame or absence. Marks Normal."
  "\<^verbatim>\<open>allocate_committed_frame(zero_fill)\<close>: frame (never fails; commit must have been
  reserved). Marks Normal; decrements the caller-held commit by one."
  A new page carries one reference, owned by the caller.
\<close>

definition fresh_page :: "MemoryManager \<Rightarrow> bool \<Rightarrow> MemoryManager \<times> PhysicalPage" where
  "fresh_page mm zero_fill =
     (let p = UserPage (next_user_page mm);
          mm1 = mm\<lparr>next_user_page := next_user_page mm + 1,
                   ref_count := (ref_count mm)(p := 1)\<rparr>
      in (if zero_fill then mm1\<lparr>page_bytes := (page_bytes mm1)(p := replicate PAGE_SIZE 0)\<rparr>
          else mm1, p))"

definition allocate_user_physical_page ::
  "MemoryManager \<Rightarrow> bool \<Rightarrow> MemoryManager \<times> page_slot" where
  "allocate_user_physical_page mm zero_fill =
     (if user_physical_pages_uncommitted mm = 0 then (mm, None)
      else let (mm1, p) = fresh_page
                 (mm\<lparr>user_physical_pages_uncommitted := user_physical_pages_uncommitted mm - 1\<rparr>)
                 zero_fill
           in (mm1, Some p))"

definition allocate_committed_user_physical_page ::
  "MemoryManager \<Rightarrow> bool \<Rightarrow> MemoryManager \<times> PhysicalPage" where
  "allocate_committed_user_physical_page mm zero_fill =
     fresh_page (mm\<lparr>user_physical_pages_committed := user_physical_pages_committed mm - 1\<rparr>)
       zero_fill"

subsection \<open>VM objects\<close>

record VolatilePageRange =
  range_base :: nat
  range_count :: nat
  range_was_purged :: bool

text \<open>
  Modelled from the spec: \<^verbatim>\<open>PurgeablePageRanges\<close> and \<^verbatim>\<open>VolatilePageRanges\<close> are not
  in the sources. A registration holds its volatile ranges and the ranges recorded as
  purged ("record a was-purged flag per registration"); a range list contains a page
  index when one of its ranges covers it.
\<close>

record PurgeablePageRanges =
  volatile_ranges :: "VolatilePageRange list"
  purged_ranges :: "VolatilePageRange list"

definition range_covers :: "VolatilePageRange \<Rightarrow> nat \<Rightarrow> bool" where
  "range_covers r i = (range_base r \<le> i \<and> i < range_base r + range_count r)"

definition ranges_contain :: "VolatilePageRange list \<Rightarrow> nat \<Rightarrow> bool" where
  "ranges_contain rs i = list_ex (\<lambda>r. range_covers r i) rs"

definition is_volatile :: "PurgeablePageRanges \<Rightarrow> nat \<Rightarrow> bool" where
  "is_volatile pr i = ranges_contain (volatile_ranges pr) i"

definition PurgeablePageRanges_set_was_purged ::
  "PurgeablePageRanges \<Rightarrow> VolatilePageRange \<Rightarrow> PurgeablePageRanges" where
  "PurgeablePageRanges_set_was_purged pr r =
     pr\<lparr>purged_ranges := purged_ranges pr @ [r\<lparr>range_was_purged := True\<rparr>]\<rparr>"

datatype VMObjectKind = Anonymous | PrivateInode | SharedInode

text \<open>
  One record for the \<^verbatim>\<open>VMObject\<close> base class and the members that
  \<^verbatim>\<open>AnonymousVMObject\<close> adds. The cow bitmap is null or one bit per page;
  \<open>m_shared_committed_cow_pages\<close> is null or the address of a pool of the memory manager.
\<close>

record VMObject =
  vm_kind :: VMObjectKind
  m_physical_pages :: "page_slot list"
  m_volatile_ranges_cache :: "VolatilePageRange list"
  m_volatile_ranges_cache_dirty :: bool
  m_purgeable_ranges :: "PurgeablePageRanges list"
  m_unused_committed_pages :: nat
  m_cow_map :: "bool list option"
  m_shared_committed_cow_pages :: "nat option"

definition page_count :: "VMObject \<Rightarrow> nat" where
  "page_count vmo = length (m_physical_pages vmo)"

definition is_anonymous :: "VMObject \<Rightarrow> bool" where
  "is_anonymous vmo = (vm_kind vmo = Anonymous)"

definition is_inode :: "VMObject \<Rightarrow> bool" where
  "is_inode vmo = (vm_kind vmo = PrivateInode \<or> vm_kind vmo = SharedInode)"

text \<open>The bit of the cow bitmap for a page; a null bitmap has no bit set.\<close>

definition cow_bit :: "VMObject \<Rightarrow> nat \<Rightarrow> bool" where
  "cow_bit vmo i = (case m_cow_map vmo of None \<Rightarrow> False | Some bm \<Rightarrow> i < length bm \<and> bm ! i)"

text \<open>The bitmap, when there is one, has one bit per page.\<close>

definition cow_map_sized :: "VMObject \<Rightarrow> bool" where
  "cow_map_sized vmo =
     (case m_cow_map vmo of None \<Rightarrow> True | Some bm \<Rightarrow> length bm = page_count vmo)"

definition ensure_cow_map :: "VMObject \<Rightarrow> VMObject" where
  "ensure_cow_map vmo =
     (if m_cow_map vmo = None then vmo\<lparr>m_cow_map := Some (replicate (page_count vmo) True)\<rparr>
      else vmo)"

definition ensure_or_reset_cow_map :: "VMObject \<Rightarrow> VMObject" where
  "ensure_or_reset_cow_map vmo =
     (case m_cow_map vmo of
        None \<Rightarrow> ensure_cow_map vmo
      | Some bm \<Rightarrow> vmo\<lparr>m_cow_map := Some (replicate (length bm) True)\<rparr>)"

definition should_cow :: "VMObject \<Rightarrow> nat \<Rightarrow> bool \<Rightarrow> bool outcome" where
  "should_cow vmo page_index is_shared =
     (if page_index \<ge> length (m_physical_pages vmo) then KernelPanic
      else let page = m_physical_pages vmo ! page_index in
        if page = Some SharedZeroPage \<or> page = Some LazyCommittedPage then Returns True
        else if is_shared then Returns False
        else case m_cow_map vmo of
               None \<Rightarrow> Returns False
             | Some bm \<Rightarrow> if page_index < length bm then Returns (bm ! page_index)
                          else KernelPanic)"

definition set_should_cow :: "VMObject \<Rightarrow> nat \<Rightarrow> bool \<Rightarrow> VMObject outcome" where
  "set_should_cow vmo page_index cow =
     (let vmo1 = ensure_cow_map vmo in
      case m_cow_map vmo1 of
        None \<Rightarrow> KernelPanic
      | Some bm \<Rightarrow> if page_index < length bm
                   then Returns (vmo1\<lparr>m_cow_map := Some (bm[page_index := cow])\<rparr>)
                   else KernelPanic)"

subsection \<open>Copy-on-write pools\<close>

text \<open>
  Modelled from the spec: \<^verbatim>\<open>CommittedCowPages\<close> is not in the sources. A pool is
  created with the number of pages committed for outstanding copy-on-write.
  "Return one credit to it and drop the pool when drained": \<^verbatim>\<open>return_one\<close> gives one
  committed page of the pool back to the global reserve and reports whether the pool is
  drained. "Allocate a committed frame from the pool": \<^verbatim>\<open>allocate_one\<close> turns one
  committed page of the pool into a frame. A pool that holds no page has none to give:
  the kernel halts.
\<close>

definition create_CommittedCowPages :: "MemoryManager \<Rightarrow> nat \<Rightarrow> MemoryManager \<times> nat" where
  "create_CommittedCowPages mm committed_pages =
     (mm\<lparr>cow_pools := (cow_pools mm)(next_cow_pool mm := committed_pages),
         next_cow_pool := next_cow_pool mm + 1\<rparr>, next_cow_pool mm)"

definition return_one :: "MemoryManager \<Rightarrow> nat \<Rightarrow> (bool \<times> MemoryManager) outcome" where
  "return_one mm pool =
     (if cow_pools mm pool = 0 then KernelPanic
      else let mm1 = mm\<lparr>cow_pools := (cow_pools mm)(pool := cow_pools mm pool - 1)\<rparr>
           in Returns (cow_pools mm1 pool = 0, uncommit_user_physical_pages mm1 1))"

definition allocate_one :: "MemoryManager \<Rightarrow> nat \<Rightarrow> (MemoryManager \<times> PhysicalPage) outcome" where
  "allocate_one mm pool =
     (if cow_pools mm pool = 0 then KernelPanic
      else Returns (allocate_committed_user_physical_page
             (mm\<lparr>cow_pools := (cow_pools mm)(pool := cow_pools mm pool - 1)\<rparr>) True))"

subsection \<open>Anonymous VM objects\<close>

datatype AllocationStrategy = Reserve | AllocateNow | NoStrategy

definition ceil_div :: "nat \<Rightarrow> nat \<Rightarrow> nat" where
  "ceil_div a b = (if a mod b = 0 then a div b else a div b + 1)"

fun ref_page_times :: "nat \<Rightarrow> MemoryManager \<Rightarrow> PhysicalPage \<Rightarrow> MemoryManager" where
  "ref_page_times 0 mm p = mm"
| "ref_page_times (Suc n) mm p = ref_page_times n (ref_page mm p) p"

fun allocate_committed_pages :: "nat \<Rightarrow> MemoryManager \<Rightarrow> MemoryManager \<times> page_slot list" where
  "allocate_committed_pages 0 mm = (mm, [])"
| "allocate_committed_pages (Suc n) mm =
     (let (mm1, p) = allocate_committed_user_physical_page mm True;
          (mm2, ps) = allocate_committed_pages n mm1
      in (mm2, Some p # ps))"

text \<open>
  The constructor \<^verbatim>\<open>AnonymousVMObject(size, strategy)\<close>. The base class holds one
  slot per page of the size; the volatile-range cache starts without a range and is
  marked dirty (the member's initialiser is in the header, which is not in the sources).
\<close>

definition AnonymousVMObject_with_size ::
  "MemoryManager \<Rightarrow> nat \<Rightarrow> AllocationStrategy \<Rightarrow> MemoryManager \<times> VMObject" where
  "AnonymousVMObject_with_size mm sz strategy =
     (let n = ceil_div sz PAGE_SIZE;
          (mm1, pages) =
            (if strategy = AllocateNow then allocate_committed_pages n mm
             else let initial_page = (if strategy = Reserve then LazyCommittedPage
                                      else SharedZeroPage)
                  in (ref_page_times n mm initial_page, replicate n (Some initial_page)))
      in (mm1, \<lparr>vm_kind = Anonymous, m_physical_pages = pages,
                m_volatile_ranges_cache = [], m_volatile_ranges_cache_dirty = True,
                m_purgeable_ranges = [],
                m_unused_committed_pages = (if strategy = Reserve then n else 0),
                m_cow_map = None, m_shared_committed_cow_pages = None\<rparr>))"

text \<open>\<open>vmo_alloc_ok\<close> tells whether \<^verbatim>\<open>new (nothrow)\<close> finds memory for the object.\<close>

definition try_create_with_size ::
  "bool \<Rightarrow> MemoryManager \<Rightarrow> nat \<Rightarrow> AllocationStrategy \<Rightarrow> MemoryManager \<times> VMObject option" where
  "try_create_with_size vmo_alloc_ok mm sz commit =
     (case (if commit = Reserve \<or> commit = AllocateNow
            then commit_user_physical_pages mm (ceil_div sz PAGE_SIZE)
            else Some mm) of
        None \<Rightarrow> (mm, None)
      | Some mm1 \<Rightarrow>
          if vmo_alloc_ok
          then let (mm2, vmo) = AnonymousVMObject_with_size mm1 sz commit in (mm2, Some vmo)
          else (mm1, None))"

text \<open>
  The loop of the copy constructor over the copied slots: every lazy-committed slot
  becomes the shared zero page while the copied counter is not yet zero. It is entered
  with the counter above zero.
\<close>

fun replace_lazy_committed ::
  "page_slot list \<Rightarrow> nat \<Rightarrow> MemoryManager \<Rightarrow> page_slot list \<times> nat \<times> MemoryManager" where
  "replace_lazy_committed [] unused mm = ([], unused, mm)"
| "replace_lazy_committed (phys_page # rest) unused mm =
     (if phys_page = Some LazyCommittedPage
      then let mm1 = assign_slot mm phys_page SharedZeroPage
           in if unused - 1 = 0 then (Some SharedZeroPage # rest, unused - 1, mm1)
              else let (rest', unused', mm2) = replace_lazy_committed rest (unused - 1) mm1
                   in (Some SharedZeroPage # rest', unused', mm2)
      else let (rest', unused', mm2) = replace_lazy_committed rest unused mm
           in (phys_page # rest', unused', mm2))"

text \<open>The number of slots that hold the lazy-committed sentinel.\<close>

definition count_lazy_committed :: "page_slot list \<Rightarrow> nat" where
  "count_lazy_committed slots = length (filter (\<lambda>s. s = Some LazyCommittedPage) slots)"

text \<open>
  Modelled from the spec: the copy constructor of the base class \<^verbatim>\<open>VMObject\<close> is not
  in the sources. The new object "shares slot frames": it copies the slots, taking one
  more reference to the page of every slot that holds one.
\<close>

definition VMObject_copy_pages :: "MemoryManager \<Rightarrow> page_slot list \<Rightarrow> MemoryManager" where
  "VMObject_copy_pages mm slots = fold (\<lambda>s m. ref_slot m s) slots mm"

text \<open>The copy constructor \<^verbatim>\<open>AnonymousVMObject(AnonymousVMObject const&)\<close>.\<close>

definition AnonymousVMObject_copy ::
  "MemoryManager \<Rightarrow> VMObject \<Rightarrow> (MemoryManager \<times> VMObject) outcome" where
  "AnonymousVMObject_copy mm other =
     (let mm1 = VMObject_copy_pages mm (m_physical_pages other);
          this1 = ensure_or_reset_cow_map
                    \<lparr>vm_kind = Anonymous, m_physical_pages = m_physical_pages other,
                     m_volatile_ranges_cache = [], m_volatile_ranges_cache_dirty = True,
                     m_purgeable_ranges = [],
                     m_unused_committed_pages = m_unused_committed_pages other,
                     m_cow_map = None,
                     m_shared_committed_cow_pages = m_shared_committed_cow_pages other\<rparr>
      in if m_unused_committed_pages this1 > 0
         then let (slots, unused, mm2) =
                    replace_lazy_committed (m_physical_pages this1)
                      (m_unused_committed_pages this1) mm1
              in if unused = 0
                 then Returns (mm2, this1\<lparr>m_physical_pages := slots,
                                          m_unused_committed_pages := unused\<rparr>)
                 else KernelPanic
         else Returns (mm1, this1))"

text \<open>
  \<^verbatim>\<open>try_clone\<close>. \<^verbatim>\<open>for_each_nonvolatile_range\<close> is not in the sources: the ranges it
  yields are the parameter \<open>nonvolatile\<close>. \<open>pool_alloc_ok\<close> and \<open>vmo_alloc_ok\<close> tell
  whether the two heap allocations find memory. The result is the memory manager, the
  object itself after the call, and the clone or null.
\<close>

definition try_clone ::
  "VolatilePageRange list \<Rightarrow> bool \<Rightarrow> bool \<Rightarrow> MemoryManager \<Rightarrow> VMObject
     \<Rightarrow> (MemoryManager \<times> VMObject \<times> VMObject option) outcome" where
  "try_clone nonvolatile pool_alloc_ok vmo_alloc_ok mm this =
     (let need_cow_pages = sum_list (map range_count nonvolatile)
      in case commit_user_physical_pages mm need_cow_pages of
           None \<Rightarrow> Returns (mm, this, None)
         | Some mm1 \<Rightarrow>
             if \<not> pool_alloc_ok
             then Returns (uncommit_user_physical_pages mm1 need_cow_pages,
                           this\<lparr>m_shared_committed_cow_pages := None\<rparr>, None)
             else let (mm2, pool) = create_CommittedCowPages mm1 need_cow_pages;
                      this1 = ensure_or_reset_cow_map
                                (this\<lparr>m_shared_committed_cow_pages := Some pool\<rparr>)
                  in if \<not> vmo_alloc_ok then Returns (mm2, this1, None)
                     else case AnonymousVMObject_copy mm2 this1 of
                            KernelPanic \<Rightarrow> KernelPanic
                          | Returns (mm3, clone) \<Rightarrow> Returns (mm3, this1, Some clone))"

text \<open>
  The cache behind \<^verbatim>\<open>is_nonvolatile\<close>. \<^verbatim>\<open>update_volatile_cache\<close> clears the cache, adds
  every range that \<^verbatim>\<open>for_each_nonvolatile_range\<close> yields (the parameter \<open>nonvolatile\<close>)
  and clears the dirty flag. \<^verbatim>\<open>is_nonvolatile\<close> refreshes a dirty cache and answers
  whether the cache does not contain the page.
\<close>

definition update_volatile_cache :: "VolatilePageRange list \<Rightarrow> VMObject \<Rightarrow> VMObject" where
  "update_volatile_cache nonvolatile vmo =
     vmo\<lparr>m_volatile_ranges_cache := nonvolatile, m_volatile_ranges_cache_dirty := False\<rparr>"

definition is_nonvolatile ::
  "VolatilePageRange list \<Rightarrow> VMObject \<Rightarrow> nat \<Rightarrow> bool \<times> VMObject" where
  "is_nonvolatile nonvolatile vmo page_index =
     (let vmo1 = (if m_volatile_ranges_cache_dirty vmo
                  then update_volatile_cache nonvolatile vmo else vmo)
      in (\<not> ranges_contain (m_volatile_ranges_cache vmo1) page_index, vmo1))"


datatype PageFaultResponse = ShouldCrash | OutOfMemory | Continue

text \<open>
  What \<^verbatim>\<open>safe_memcpy\<close> of one page into the quick-mapped new page does: it completes,
  or it faults at an address in the destination, in the source or elsewhere. After a
  fault the destination holds the bytes the constructor carries.
\<close>

datatype fault_place = InDestination | InSource | Elsewhere

datatype copy_result = CopyDone | CopyFaulted fault_place "8 word list"

text \<open>
  \<^verbatim>\<open>AnonymousVMObject::handle_cow_fault\<close>. The page at the faulting address is the page
  of the slot, so a completed copy gives the new page the bytes of the old one.
\<close>

definition AnonymousVMObject_handle_cow_fault ::
  "VolatilePageRange list \<Rightarrow> copy_result \<Rightarrow> MemoryManager \<Rightarrow> VMObject \<Rightarrow> nat
     \<Rightarrow> (PageFaultResponse \<times> MemoryManager \<times> VMObject) outcome" where
  "AnonymousVMObject_handle_cow_fault nonvolatile copy mm vmo page_index =
     (if page_index \<ge> length (m_physical_pages vmo) then KernelPanic
      else
        let page_slot = m_physical_pages vmo ! page_index;
            (have_committed, vmo1) =
              (case m_shared_committed_cow_pages vmo of
                 None \<Rightarrow> (False, vmo)
               | Some pool \<Rightarrow> is_nonvolatile nonvolatile vmo page_index)
        in case page_slot of
             None \<Rightarrow> KernelPanic
           | Some old_page \<Rightarrow>
               if ref_count mm old_page = 1
               then (case set_should_cow vmo1 page_index False of
                       KernelPanic \<Rightarrow> KernelPanic
                     | Returns vmo2 \<Rightarrow>
                         if have_committed
                         then (case m_shared_committed_cow_pages vmo2 of
                                 None \<Rightarrow> KernelPanic
                               | Some pool \<Rightarrow>
                                   (case return_one mm pool of
                                      KernelPanic \<Rightarrow> KernelPanic
                                    | Returns (drained, mm1) \<Rightarrow>
                                        Returns (Continue, mm1,
                                          if drained
                                          then vmo2\<lparr>m_shared_committed_cow_pages := None\<rparr>
                                          else vmo2)))
                         else Returns (Continue, mm, vmo2))
               else
                 (case (if have_committed
                        then (case m_shared_committed_cow_pages vmo1 of
                                None \<Rightarrow> KernelPanic
                              | Some pool \<Rightarrow>
                                  (case allocate_one mm pool of
                                     KernelPanic \<Rightarrow> KernelPanic
                                   | Returns (mm1, page) \<Rightarrow> Returns (mm1, Some page)))
                        else Returns (allocate_user_physical_page mm False)) of
                    KernelPanic \<Rightarrow> KernelPanic
                  | Returns (mm1, None) \<Rightarrow> Returns (OutOfMemory, mm1, vmo1)
                  | Returns (mm1, Some page) \<Rightarrow>
                      (case copy of
                         CopyFaulted Elsewhere bytes \<Rightarrow> KernelPanic
                       | _ \<Rightarrow>
                           let mm2 = mm1\<lparr>page_bytes := (page_bytes mm1)
                                       (page := (case copy of
                                                   CopyDone \<Rightarrow> page_bytes mm1 old_page
                                                 | CopyFaulted place bytes \<Rightarrow> bytes))\<rparr>;
                               mm3 = unref_page mm2 old_page;
                               vmo2 = vmo1\<lparr>m_physical_pages :=
                                        (m_physical_pages vmo1)[page_index := Some page]\<rparr>
                           in (case set_should_cow vmo2 page_index False of
                                 KernelPanic \<Rightarrow> KernelPanic
                               | Returns vmo3 \<Rightarrow> Returns (Continue, mm3, vmo3)))))"

subsection \<open>Regions\<close>

text \<open>
  Modelled from the spec: \<^verbatim>\<open>Region.h\<close> is not in the sources. A region has a
  "VirtualRange, offset-in-VMO (page units), reference to one VMO, access bits {R,W,X},
  cacheable flag, shared flag, optional owning PageDirectory, tags {stack, mmap,
  syscall}". The record holds the members that the fault and mapping paths read; the
  access bits are kept as the accessors \<^verbatim>\<open>is_readable\<close>, \<^verbatim>\<open>is_writable\<close> and
  \<^verbatim>\<open>is_executable\<close> report them; \<open>m_page_directory\<close> is null or the identity of the
  page directory the region is mapped in.
\<close>

record Region =
  m_range_base :: nat
  m_range_size :: nat
  m_offset_in_vmobject :: nat
  is_readable :: bool
  is_writable :: bool
  is_executable :: bool
  m_shared :: bool
  m_cacheable :: bool
  m_stack :: bool
  m_mmap :: bool
  m_page_directory :: "nat option"

text \<open>
  Modelled from the spec: the accessors of \<^verbatim>\<open>Region.h\<close>. A region of \<open>size\<close> bytes at
  \<open>base\<close> maps the pages of the VM object from its offset on, one every \<open>PAGE_SIZE\<close>
  bytes; virtual addresses and page indices are taken as natural numbers.
\<close>

definition Region_page_count :: "Region \<Rightarrow> nat" where
  "Region_page_count r = m_range_size r div PAGE_SIZE"

definition first_page_index :: "Region \<Rightarrow> nat" where
  "first_page_index r = m_offset_in_vmobject r"

definition vaddr_from_page_index :: "Region \<Rightarrow> nat \<Rightarrow> nat" where
  "vaddr_from_page_index r page_index = m_range_base r + page_index * PAGE_SIZE"


definition translate_to_vmobject_page :: "Region \<Rightarrow> nat \<Rightarrow> nat" where
  "translate_to_vmobject_page r page_index = first_page_index r + page_index"

text \<open>
  Modelled from the spec: \<^verbatim>\<open>translate_vmobject_page\<close> (\<^verbatim>\<open>Region.h\<close>) gives the index in
  the region of a page of the VM object, when the region maps that page.
\<close>

definition translate_vmobject_page :: "Region \<Rightarrow> nat \<Rightarrow> nat option" where
  "translate_vmobject_page r index =
     (if index < first_page_index r then None
      else if index - first_page_index r \<ge> Region_page_count r then None
      else Some (index - first_page_index r))"

text \<open>
  Modelled from the spec: \<^verbatim>\<open>is_user_address\<close> is not in the sources; "vaddr is in user
  range" is taken as lying below a ceiling that the memory manager knows.
\<close>

definition is_user_address :: "MemoryManager \<Rightarrow> nat \<Rightarrow> bool" where
  "is_user_address mm vaddr = (vaddr < user_range_ceiling mm)"

text \<open>
  Modelled from the spec: \<^verbatim>\<open>physical_page\<close> and \<^verbatim>\<open>physical_page_slot\<close> (\<^verbatim>\<open>Region.h\<close>)
  give the slot of the VM object that a page of the region maps.
\<close>

definition physical_page :: "VMObject \<Rightarrow> Region \<Rightarrow> nat \<Rightarrow> page_slot outcome" where
  "physical_page vmo r index =
     (if first_page_index r + index < length (m_physical_pages vmo)
      then Returns (m_physical_pages vmo ! (first_page_index r + index))
      else KernelPanic)"

text \<open>\<^verbatim>\<open>Region::should_cow\<close>.\<close>

definition Region_should_cow :: "VMObject \<Rightarrow> Region \<Rightarrow> nat \<Rightarrow> bool outcome" where
  "Region_should_cow vmo r page_index =
     (if \<not> is_anonymous vmo then Returns False
      else should_cow vmo (first_page_index r + page_index) (m_shared r))"

text \<open>
  \<^verbatim>\<open>Region::map_individual_page_impl\<close>. The result is what the function returns and the
  memory manager with the entry written.
\<close>

definition set_pte :: "MemoryManager \<Rightarrow> nat \<times> nat \<Rightarrow> PageTableEntry \<Rightarrow> MemoryManager" where
  "set_pte mm key pte = mm\<lparr>page_tables := (page_tables mm)(key := pte)\<rparr>"

definition map_individual_page_impl ::
  "MemoryManager \<Rightarrow> VMObject \<Rightarrow> Region \<Rightarrow> nat \<Rightarrow> (bool \<times> MemoryManager) outcome" where
  "map_individual_page_impl mm vmo r page_index =
     (case m_page_directory r of
        None \<Rightarrow> KernelPanic
      | Some pd \<Rightarrow>
          let page_vaddr = vaddr_from_page_index r page_index;
              user_allowed = (page_vaddr \<ge> 0x00800000 \<and> is_user_address mm page_vaddr)
          in if m_mmap r \<and> \<not> user_allowed then KernelPanic
             else if pte_unavailable mm (pd, page_vaddr) then Returns (False, mm)
             else case physical_page vmo r page_index of
                    KernelPanic \<Rightarrow> KernelPanic
                  | Returns None \<Rightarrow> Returns (True, set_pte mm (pd, page_vaddr) pte_clear)
                  | Returns (Some page) \<Rightarrow>
                      if \<not> is_readable r \<and> \<not> is_writable r
                      then Returns (True, set_pte mm (pd, page_vaddr) pte_clear)
                      else case (if is_shared_zero_page page \<or> is_lazy_committed_page page
                                 then Returns True
                                 else Region_should_cow vmo r page_index) of
                             KernelPanic \<Rightarrow> KernelPanic
                           | Returns write_protect \<Rightarrow>
                               let pte0 = page_tables mm (pd, page_vaddr);
                                   pte1 = pte0\<lparr>pte_cache_disabled := \<not> m_cacheable r,
                                               pte_physical_page_base := paddr mm page,
                                               pte_present := True,
                                               pte_writable := (if write_protect then False
                                                                else is_writable r)\<rparr>;
                                   pte2 = (if has_nx mm
                                           then pte1\<lparr>pte_execute_disabled := \<not> is_executable r\<rparr>
                                           else pte1);
                                   pte3 = pte2\<lparr>pte_user_allowed := user_allowed\<rparr>
                               in Returns (True, set_pte mm (pd, page_vaddr) pte3))"

text \<open>\<^verbatim>\<open>Region::do_remap_vmobject_page\<close>; flushing the TLB changes nothing here.\<close>

definition do_remap_vmobject_page ::
  "MemoryManager \<Rightarrow> VMObject \<Rightarrow> Region \<Rightarrow> nat \<Rightarrow> (bool \<times> MemoryManager) outcome" where
  "do_remap_vmobject_page mm vmo r page_index =
     (if m_page_directory r = None then Returns (True, mm)
      else case translate_vmobject_page r page_index of
             None \<Rightarrow> Returns (True, mm)
           | Some index \<Rightarrow>
               (case physical_page vmo r index of
                  KernelPanic \<Rightarrow> KernelPanic
                | Returns None \<Rightarrow> KernelPanic
                | Returns (Some page) \<Rightarrow> map_individual_page_impl mm vmo r index))"

text \<open>
  \<^verbatim>\<open>Region::remap_vmobject_page\<close>. \<^verbatim>\<open>for_each_region\<close> visits the regions registered
  with the VM object, here a list.
\<close>

fun remap_regions ::
  "Region list \<Rightarrow> VMObject \<Rightarrow> nat \<Rightarrow> bool \<Rightarrow> MemoryManager \<Rightarrow> (bool \<times> MemoryManager) outcome"
where
  "remap_regions [] vmo page_index success mm = Returns (success, mm)"
| "remap_regions (r # rs) vmo page_index success mm =
     (case do_remap_vmobject_page mm vmo r page_index of
        KernelPanic \<Rightarrow> KernelPanic
      | Returns (ok, mm') \<Rightarrow> remap_regions rs vmo page_index (success \<and> ok) mm')"

definition remap_vmobject_page ::
  "MemoryManager \<Rightarrow> VMObject \<Rightarrow> Region list \<Rightarrow> nat \<Rightarrow> (bool \<times> MemoryManager) outcome" where
  "remap_vmobject_page mm vmo regions page_index =
     remap_regions regions vmo page_index True mm"

text \<open>
  An mmap region lies at user addresses above 8 MiB: the condition under which
  \<^verbatim>\<open>map_individual_page_impl\<close> does not panic on any of its pages.
\<close>

definition mmap_in_user_range :: "MemoryManager \<Rightarrow> Region \<Rightarrow> bool" where
  "mmap_in_user_range mm r =
     (m_mmap r \<longrightarrow>
        list_all (\<lambda>i. 0x00800000 \<le> vaddr_from_page_index r i \<and>
                      is_user_address mm (vaddr_from_page_index r i))
          [0..<Region_page_count r])"

text \<open>Two memory managers that are equal but for their page tables.\<close>

definition only_page_tables_differ :: "MemoryManager \<Rightarrow> MemoryManager \<Rightarrow> bool" where
  "only_page_tables_differ mm mm' = (mm'\<lparr>page_tables := page_tables mm\<rparr> = mm)"



text \<open>\<^verbatim>\<open>Region::amount_resident\<close> and \<^verbatim>\<open>Region::amount_dirty\<close>.\<close>

fun amount_resident_loop :: "VMObject \<Rightarrow> Region \<Rightarrow> nat \<Rightarrow> nat \<Rightarrow> nat \<Rightarrow> nat outcome" where
  "amount_resident_loop vmo r i 0 bytes = Returns bytes"
| "amount_resident_loop vmo r i (Suc n) bytes =
     (case physical_page vmo r i of
        KernelPanic \<Rightarrow> KernelPanic
      | Returns page \<Rightarrow>
          amount_resident_loop vmo r (Suc i) n
            (case page of
               None \<Rightarrow> bytes
             | Some p \<Rightarrow> if \<not> is_shared_zero_page p \<and> \<not> is_lazy_committed_page p
                         then bytes + PAGE_SIZE else bytes))"

definition amount_resident :: "VMObject \<Rightarrow> Region \<Rightarrow> nat outcome" where
  "amount_resident vmo r = amount_resident_loop vmo r 0 (Region_page_count r) 0"

text \<open>
  \<^verbatim>\<open>InodeVMObject::amount_dirty\<close> is not in the sources: what it returns is the
  parameter \<open>inode_dirty\<close>.
\<close>

definition amount_dirty :: "nat \<Rightarrow> VMObject \<Rightarrow> Region \<Rightarrow> nat outcome" where
  "amount_dirty inode_dirty vmo r =
     (if \<not> is_inode vmo then amount_resident vmo r else Returns inode_dirty)"

text \<open>A slot that holds a page which is not a sentinel.\<close>

definition resident_slot :: "page_slot \<Rightarrow> bool" where
  "resident_slot s = (s \<noteq> None \<and> \<not> is_sentinel_slot s)"

subsection \<open>Purging volatile ranges\<close>

text \<open>
  Modelled from the spec: \<^verbatim>\<open>Region::remap_vmobject_page_range\<close> is not in the sources.
  "Remap affected region PTEs": every page of the range is remapped in the region.
\<close>

fun remap_page_range ::
  "Region \<Rightarrow> VMObject \<Rightarrow> nat \<Rightarrow> nat \<Rightarrow> MemoryManager \<Rightarrow> MemoryManager outcome" where
  "remap_page_range r vmo i 0 mm = Returns mm"
| "remap_page_range r vmo i (Suc n) mm =
     (case do_remap_vmobject_page mm vmo r i of
        KernelPanic \<Rightarrow> KernelPanic
      | Returns (ok, mm1) \<Rightarrow> remap_page_range r vmo (Suc i) n mm1)"

fun remap_regions_range ::
  "Region list \<Rightarrow> VMObject \<Rightarrow> VolatilePageRange \<Rightarrow> MemoryManager \<Rightarrow> MemoryManager outcome"
where
  "remap_regions_range [] vmo rng mm = Returns mm"
| "remap_regions_range (r # rs) vmo rng mm =
     (case remap_page_range r vmo (range_base rng) (range_count rng) mm of
        KernelPanic \<Rightarrow> KernelPanic
      | Returns mm1 \<Rightarrow> remap_regions_range rs vmo rng mm1)"

definition set_was_purged :: "VMObject \<Rightarrow> VolatilePageRange \<Rightarrow> VMObject" where
  "set_was_purged vmo rng =
     vmo\<lparr>m_purgeable_ranges :=
           map (\<lambda>pr. PurgeablePageRanges_set_was_purged pr rng) (m_purgeable_ranges vmo)\<rparr>"

text \<open>
  The inner loop of \<^verbatim>\<open>purge\<close> over the pages \<open>i, i + 1, ...\<close> of one range, \<open>n\<close> of them
  left: it counts the slots that hold a page other than the shared zero page (a
  lazy-committed one fails the assertion) and makes every slot the shared zero page.
\<close>

fun purge_pages ::
  "nat \<Rightarrow> nat \<Rightarrow> nat \<times> MemoryManager \<times> page_slot list
     \<Rightarrow> (nat \<times> MemoryManager \<times> page_slot list) outcome" where
  "purge_pages i 0 st = Returns st"
| "purge_pages i (Suc n) (purged_in_range, mm, slots) =
     (if i \<ge> length slots then KernelPanic
      else let phys_page = slots ! i in
        if phys_page = Some LazyCommittedPage then KernelPanic
        else purge_pages (Suc i) n
               (if phys_page \<noteq> None \<and> phys_page \<noteq> Some SharedZeroPage
                then purged_in_range + 1 else purged_in_range,
                assign_slot mm phys_page SharedZeroPage,
                slots[i := Some SharedZeroPage]))"

text \<open>
  \<^verbatim>\<open>purge\<close>. \<^verbatim>\<open>for_each_volatile_range\<close> is not in the sources: the ranges it yields,
  in order, are the parameter \<open>volatile\<close>. The count is an \<^verbatim>\<open>int\<close> in the source; it
  never exceeds the number of pages.
\<close>

fun purge_ranges ::
  "VolatilePageRange list \<Rightarrow> Region list \<Rightarrow> nat \<times> MemoryManager \<times> VMObject
     \<Rightarrow> (nat \<times> MemoryManager \<times> VMObject) outcome" where
  "purge_ranges [] regions st = Returns st"
| "purge_ranges (rng # rest) regions (purged_page_count, mm, vmo) =
     (case purge_pages (range_base rng) (range_count rng) (0, mm, m_physical_pages vmo) of
        KernelPanic \<Rightarrow> KernelPanic
      | Returns (purged_in_range, mm1, slots) \<Rightarrow>
          let vmo1 = vmo\<lparr>m_physical_pages := slots\<rparr> in
          if purged_in_range > 0
          then let vmo2 = set_was_purged vmo1 rng in
               (case remap_regions_range regions vmo2 rng mm1 of
                  KernelPanic \<Rightarrow> KernelPanic
                | Returns mm2 \<Rightarrow>
                    purge_ranges rest regions (purged_page_count + purged_in_range, mm2, vmo2))
          else purge_ranges rest regions (purged_page_count, mm1, vmo1))"

definition purge ::
  "VolatilePageRange list \<Rightarrow> Region list \<Rightarrow> MemoryManager \<Rightarrow> VMObject
     \<Rightarrow> (nat \<times> MemoryManager \<times> VMObject) outcome" where
  "purge volatile regions mm vmo = purge_ranges volatile regions (0, mm, vmo)"

text \<open>
  What \<^verbatim>\<open>purge\<close> counts and records, on the slots alone. A slot is purgeable when it
  holds a page other than the shared zero page; \<open>purge_slots\<close> are the slots after one
  range; \<open>ranges_purged\<close> lists, marked as purged, the ranges in which a purgeable slot
  was found when the range was reached.
\<close>

definition purgeable_slot :: "page_slot \<Rightarrow> bool" where
  "purgeable_slot s = (s \<noteq> None \<and> s \<noteq> Some SharedZeroPage)"

definition purge_slots :: "VolatilePageRange \<Rightarrow> page_slot list \<Rightarrow> page_slot list" where
  "purge_slots r slots =
     map (\<lambda>k. if range_covers r k then Some SharedZeroPage else slots ! k) [0..<length slots]"

fun ranges_purged :: "page_slot list \<Rightarrow> VolatilePageRange list \<Rightarrow> VolatilePageRange list" where
  "ranges_purged slots [] = []"
| "ranges_purged slots (r # rs) =
     (if list_ex (\<lambda>k. purgeable_slot (slots ! k)) [range_base r..<range_base r + range_count r]
      then [r\<lparr>range_was_purged := True\<rparr>] else [])
     @ ranges_purged (purge_slots r slots) rs"

subsection \<open>Page faults\<close>

datatype PageFaultType = PageNotPresent | ProtectionViolation



definition set_slot :: "VMObject \<Rightarrow> nat \<Rightarrow> page_slot \<Rightarrow> VMObject" where
  "set_slot vmo index s = vmo\<lparr>m_physical_pages := (m_physical_pages vmo)[index := s]\<rparr>"

definition remap_response :: "bool \<Rightarrow> PageFaultResponse \<Rightarrow> PageFaultResponse" where
  "remap_response ok response = (if ok then response else OutOfMemory)"



text \<open>
  \<^verbatim>\<open>Region::handle_inode_fault\<close>. \<^verbatim>\<open>Inode::read_bytes\<close> is a parameter: at an offset
  and a length it gives an error number or the bytes read. The read may block, and the
  VM object lock is taken only after it: \<open>others\<close> is what the rest of the system does to
  the state in between (the identity when nothing else runs). A read of more bytes than
  asked for is outside the model.
\<close>

definition handle_inode_fault ::
  "(nat \<Rightarrow> nat \<Rightarrow> nat + 8 word list) \<Rightarrow> (MemoryManager \<times> VMObject \<Rightarrow> MemoryManager \<times> VMObject)
     \<Rightarrow> MemoryManager \<Rightarrow> VMObject \<Rightarrow> Region list \<Rightarrow> Region \<Rightarrow> nat
     \<Rightarrow> (PageFaultResponse \<times> MemoryManager \<times> VMObject) outcome" where
  "handle_inode_fault read_bytes others mm vmo regions r page_index_in_region =
     (if \<not> is_inode vmo then KernelPanic
      else
        let page_index_in_vmobject = translate_to_vmobject_page r page_index_in_region in
        if page_index_in_vmobject \<ge> length (m_physical_pages vmo) then KernelPanic
        else if m_physical_pages vmo ! page_index_in_vmobject \<noteq> None then KernelPanic
        else
          let result = read_bytes (page_index_in_vmobject * PAGE_SIZE) PAGE_SIZE;
              (mm1, vmo1) = others (mm, vmo)
          in case result of
               Inl error \<Rightarrow> Returns (ShouldCrash, mm1, vmo1)
             | Inr bytes \<Rightarrow>
                 if length bytes > PAGE_SIZE then KernelPanic
                 else
                   let page_buffer = bytes @ replicate (PAGE_SIZE - length bytes) 0 in
                   if page_index_in_vmobject \<ge> length (m_physical_pages vmo1) then KernelPanic
                   else if m_physical_pages vmo1 ! page_index_in_vmobject \<noteq> None
                   then (case remap_vmobject_page mm1 vmo1 regions page_index_in_vmobject of
                           KernelPanic \<Rightarrow> KernelPanic
                         | Returns (ok, mm2) \<Rightarrow>
                             Returns (remap_response ok Continue, mm2, vmo1))
                   else
                     let (mm2, entry) = allocate_user_physical_page mm1 False;
                         vmo2 = set_slot vmo1 page_index_in_vmobject entry
                     in (case entry of
                           None \<Rightarrow> Returns (OutOfMemory, mm2, vmo2)
                         | Some page \<Rightarrow>
                             let mm3 = mm2\<lparr>page_bytes := (page_bytes mm2)(page := page_buffer)\<rparr>
                             in (case remap_vmobject_page mm3 vmo2 regions
                                        page_index_in_vmobject of
                                   KernelPanic \<Rightarrow> KernelPanic
                                 | Returns (ok, mm4) \<Rightarrow> Returns (Continue, mm4, vmo2))))"



section \<open>Example states\<close>

text \<open>
  A memory manager after boot: sixteen free pages, nothing committed, one reference to
  each sentinel page, empty page tables, every page table entry available.
\<close>

definition mm_boot :: MemoryManager where
  "mm_boot = \<lparr>user_physical_pages_uncommitted = 16, user_physical_pages_committed = 0,
     next_user_page = 256,
     ref_count = (\<lambda>p. 0)(SharedZeroPage := 1, LazyCommittedPage := 1),
     page_bytes = (\<lambda>p. []),
     shared_zero_paddr = 1, lazy_committed_paddr = 2,
     page_tables = (\<lambda>k. pte_clear), pte_unavailable = (\<lambda>k. False),
     cow_pools = (\<lambda>p. 0), next_cow_pool = 0,
     has_nx = True, user_range_ceiling = 0xbe000000\<rparr>"

text \<open>An anonymous VM object of one page that holds a frame, with its cow bit set.\<close>

definition vmo_cow_page :: VMObject where
  "vmo_cow_page = \<lparr>vm_kind = Anonymous, m_physical_pages = [Some (UserPage 256)],
     m_volatile_ranges_cache = [], m_volatile_ranges_cache_dirty = True,
     m_purgeable_ranges = [], m_unused_committed_pages = 0,
     m_cow_map = Some [True], m_shared_committed_cow_pages = None\<rparr>"

text \<open>
  What \<^verbatim>\<open>try_create_with_size\<close> makes of two pages with the strategy Reserve, and the
  memory manager it leaves.
\<close>

definition vmo_reserved :: VMObject where
  "vmo_reserved = \<lparr>vm_kind = Anonymous,
     m_physical_pages = [Some LazyCommittedPage, Some LazyCommittedPage],
     m_volatile_ranges_cache = [], m_volatile_ranges_cache_dirty = True,
     m_purgeable_ranges = [], m_unused_committed_pages = 2,
     m_cow_map = None, m_shared_committed_cow_pages = None\<rparr>"

definition mm_reserved :: MemoryManager where
  "mm_reserved = mm_boot\<lparr>user_physical_pages_uncommitted := 14,
     user_physical_pages_committed := 2,
     ref_count := (\<lambda>p. 0)(SharedZeroPage := 1, LazyCommittedPage := 3)\<rparr>"

text \<open>
  The whole of a two-page object as one non-volatile range, and what \<^verbatim>\<open>try_clone\<close>
  makes of \<open>vmo_reserved\<close>: the memory manager, the parent and the clone.
\<close>

definition nonvolatile_two_pages :: "VolatilePageRange list" where
  "nonvolatile_two_pages = [\<lparr>range_base = 0, range_count = 2, range_was_purged = False\<rparr>]"

definition mm_cloned :: MemoryManager where
  "mm_cloned = mm_boot\<lparr>user_physical_pages_uncommitted := 12,
     user_physical_pages_committed := 4,
     ref_count := (\<lambda>p. 0)(SharedZeroPage := 3, LazyCommittedPage := 3),
     cow_pools := (\<lambda>p. 0)(0 := 2), next_cow_pool := 1\<rparr>"

definition vmo_reserved_parent :: VMObject where
  "vmo_reserved_parent = vmo_reserved\<lparr>m_cow_map := Some [True, True],
     m_shared_committed_cow_pages := Some 0\<rparr>"

definition vmo_reserved_clone :: VMObject where
  "vmo_reserved_clone = \<lparr>vm_kind = Anonymous,
     m_physical_pages = [Some SharedZeroPage, Some SharedZeroPage],
     m_volatile_ranges_cache = [], m_volatile_ranges_cache_dirty = True,
     m_purgeable_ranges = [], m_unused_committed_pages = 0,
     m_cow_map = Some [True, True], m_shared_committed_cow_pages = Some 0\<rparr>"

text \<open>
  An object created with two reserved pages whose first page has since been given a frame:
  slot 0 holds page 256, referenced once, slot 1 still holds the lazy-committed sentinel
  and one committed page is unused.
\<close>

definition vmo_touched :: VMObject where
  "vmo_touched = vmo_reserved\<lparr>m_physical_pages := [Some (UserPage 256), Some LazyCommittedPage],
     m_unused_committed_pages := 1\<rparr>"

definition mm_touched :: MemoryManager where
  "mm_touched = mm_boot\<lparr>user_physical_pages_uncommitted := 14,
     user_physical_pages_committed := 1, next_user_page := 257,
     ref_count := (\<lambda>p. 0)(SharedZeroPage := 1, LazyCommittedPage := 2, UserPage 256 := 1)\<rparr>"

text \<open>A memory manager with no page left to commit.\<close>

definition mm_exhausted :: MemoryManager where
  "mm_exhausted = mm_reserved\<lparr>user_physical_pages_uncommitted := 0\<rparr>"

text \<open>A memory manager in which page 256 is allocated and referenced once.\<close>

definition mm_one_page :: MemoryManager where
  "mm_one_page = mm_boot\<lparr>user_physical_pages_uncommitted := 15, next_user_page := 257,
     ref_count := (\<lambda>p. 0)(SharedZeroPage := 1, LazyCommittedPage := 1, UserPage 256 := 1)\<rparr>"

definition nonvolatile_one_page :: "VolatilePageRange list" where
  "nonvolatile_one_page = [\<lparr>range_base = 0, range_count = 1, range_was_purged = False\<rparr>]"

text \<open>Readable and writable mmap regions of one page at 8 MiB, in page directory 0.\<close>

definition region_private_rw :: Region where
  "region_private_rw = \<lparr>m_range_base = 0x00800000, m_range_size = 4096,
     m_offset_in_vmobject = 0, is_readable = True, is_writable = True, is_executable = False,
     m_shared = False, m_cacheable = True, m_stack = False, m_mmap = True,
     m_page_directory = Some 0\<rparr>"

definition region_shared_rw :: Region where
  "region_shared_rw = region_private_rw\<lparr>m_shared := True\<rparr>"

text \<open>
  A clone's page after the other side is gone: page 256 is referenced once, its cow bit
  is set, and the shared pool (pool 0) still holds one committed page.
\<close>

definition mm_pool :: MemoryManager where
  "mm_pool = mm_one_page\<lparr>user_physical_pages_uncommitted := 14,
     user_physical_pages_committed := 1, cow_pools := (\<lambda>p. 0)(0 := 1), next_cow_pool := 1\<rparr>"

definition vmo_cow_pool :: VMObject where
  "vmo_cow_pool = vmo_cow_page\<lparr>m_shared_committed_cow_pages := Some 0\<rparr>"

text \<open>
  A clone of two pages after the other side is gone: pages 256 and 257 are referenced
  once and their cow bits are set. One registration holds page 0 volatile, so page 1 is
  the one non-volatile range and the pool (pool 0) was given one committed page for it.
\<close>

definition volatile_first_page :: "VolatilePageRange list" where
  "volatile_first_page = [\<lparr>range_base = 0, range_count = 1, range_was_purged = False\<rparr>]"

definition nonvolatile_second_page :: "VolatilePageRange list" where
  "nonvolatile_second_page = [\<lparr>range_base = 1, range_count = 1, range_was_purged = False\<rparr>]"

definition mm_pool_two_pages :: MemoryManager where
  "mm_pool_two_pages = mm_pool\<lparr>user_physical_pages_uncommitted := 13, next_user_page := 258,
     ref_count := (\<lambda>p. 0)(SharedZeroPage := 1, LazyCommittedPage := 1,
                     UserPage 256 := 1, UserPage 257 := 1)\<rparr>"

definition vmo_cow_pool_two_pages :: VMObject where
  "vmo_cow_pool_two_pages = \<lparr>vm_kind = Anonymous,
     m_physical_pages = [Some (UserPage 256), Some (UserPage 257)],
     m_volatile_ranges_cache = [], m_volatile_ranges_cache_dirty = True,
     m_purgeable_ranges = [\<lparr>volatile_ranges = volatile_first_page, purged_ranges = []\<rparr>],
     m_unused_committed_pages = 0,
     m_cow_map = Some [True, True], m_shared_committed_cow_pages = Some 0\<rparr>"

text \<open>
  A purgeable object of two pages, one holding a frame: one registration holds the whole
  object volatile, and \<^verbatim>\<open>for_each_volatile_range\<close> yields that range.
\<close>

definition volatile_two_pages :: "VolatilePageRange list" where
  "volatile_two_pages = [\<lparr>range_base = 0, range_count = 2, range_was_purged = False\<rparr>]"

definition vmo_purgeable :: VMObject where
  "vmo_purgeable = \<lparr>vm_kind = Anonymous,
     m_physical_pages = [Some (UserPage 256), Some SharedZeroPage],
     m_volatile_ranges_cache = [], m_volatile_ranges_cache_dirty = True,
     m_purgeable_ranges = [\<lparr>volatile_ranges = volatile_two_pages, purged_ranges = []\<rparr>],
     m_unused_committed_pages = 0,
     m_cow_map = None, m_shared_committed_cow_pages = None\<rparr>"




definition nobody_else :: "MemoryManager \<times> VMObject \<Rightarrow> MemoryManager \<times> VMObject" where
  "nobody_else st = st"

text \<open>
  A shared inode object of one page that is not yet read in; a file of one byte; another
  fault that fills slot 0 with page 300 during the read; and a memory manager in which
  \<^verbatim>\<open>ensure_pte\<close> finds no memory for any entry.
\<close>

definition vmo_inode_empty :: VMObject where
  "vmo_inode_empty = \<lparr>vm_kind = SharedInode, m_physical_pages = [None],
     m_volatile_ranges_cache = [], m_volatile_ranges_cache_dirty = True,
     m_purgeable_ranges = [], m_unused_committed_pages = 0,
     m_cow_map = None, m_shared_committed_cow_pages = None\<rparr>"

definition read_one_byte :: "nat \<Rightarrow> nat \<Rightarrow> nat + 8 word list" where
  "read_one_byte offset len = Inr [0x5A]"

definition racing_fault :: "MemoryManager \<times> VMObject \<Rightarrow> MemoryManager \<times> VMObject" where
  "racing_fault st = (fst st, set_slot (snd st) 0 (Some (UserPage 300)))"

definition mm_no_page_tables :: MemoryManager where
  "mm_no_page_tables = mm_boot\<lparr>pte_unavailable := (\<lambda>k. True)\<rparr>"

section \<open>Verified properties\<close>

subsection \<open>Helper lemmas\<close>

lemma ceil_div_two_pages: "ceil_div (2 * PAGE_SIZE) PAGE_SIZE = Suc (Suc 0)"
  by (simp add: ceil_div_def PAGE_SIZE_def)

lemma try_create_with_size_reserved:
  "try_create_with_size True mm_boot (2 * PAGE_SIZE) Reserve = (mm_reserved, Some vmo_reserved)"
  by (simp add: try_create_with_size_def commit_user_physical_pages_def ceil_div_two_pages
        mm_boot_def AnonymousVMObject_with_size_def ref_page_def vmo_reserved_def
        mm_reserved_def numeral_3_eq_3)

lemma amount_resident_loop_eq:
  "first_page_index r + i + n \<le> page_count vmo \<Longrightarrow>
   amount_resident_loop vmo r i n b =
     Returns (b + PAGE_SIZE * length (filter
       (\<lambda>k. resident_slot (m_physical_pages vmo ! (first_page_index r + k))) [i..<i + n]))"
proof (induction n arbitrary: i b)
  case 0
  then show ?case by simp
next
  case (Suc n)
  have "first_page_index r + Suc i + n \<le> page_count vmo" using Suc.prems by simp
  note IH = Suc.IH[OF this]
  have lt: "first_page_index r + i < length (m_physical_pages vmo)"
    using Suc.prems by (simp add: page_count_def)
  have up: "[i..<i + Suc n] = i # [Suc i..<Suc i + n]"
    by (simp add: upt_conv_Cons del: upt_Suc)
  show ?case
    unfolding up using lt
    by (simp add: IH physical_page_def resident_slot_def is_sentinel_slot_def
          is_shared_zero_page_def is_lazy_committed_page_def split: option.splits)
qed

lemma Region_should_cow_eq:
  assumes "first_page_index r + page_index < page_count vmo" and "cow_map_sized vmo"
  shows "Region_should_cow vmo r page_index =
           Returns (is_anonymous vmo \<and>
             (is_sentinel_slot (m_physical_pages vmo ! (first_page_index r + page_index)) \<or>
              (\<not> m_shared r \<and> cow_bit vmo (first_page_index r + page_index))))"
  using assms
  by (auto simp: Region_should_cow_def should_cow_def page_count_def cow_map_sized_def
        is_sentinel_slot_def cow_bit_def Let_def split: option.splits)

lemma map_individual_page_cleared:
  assumes "m_page_directory r = Some pd"
      and "m_mmap r \<longrightarrow> 0x00800000 \<le> vaddr_from_page_index r page_index
                       \<and> is_user_address mm (vaddr_from_page_index r page_index)"
      and "\<not> pte_unavailable mm (pd, vaddr_from_page_index r page_index)"
      and "first_page_index r + page_index < page_count vmo"
      and "m_physical_pages vmo ! (first_page_index r + page_index) = None
           \<or> (\<not> is_readable r \<and> \<not> is_writable r)"
  shows "map_individual_page_impl mm vmo r page_index =
           Returns (True, set_pte mm (pd, vaddr_from_page_index r page_index) pte_clear)"
  using assms
  by (auto simp: map_individual_page_impl_def Let_def physical_page_def page_count_def
        split: option.splits)

lemma map_individual_page_present:
  assumes "m_page_directory r = Some pd"
      and "m_mmap r \<longrightarrow> 0x00800000 \<le> vaddr_from_page_index r page_index
                       \<and> is_user_address mm (vaddr_from_page_index r page_index)"
      and "\<not> pte_unavailable mm (pd, vaddr_from_page_index r page_index)"
      and "first_page_index r + page_index < page_count vmo"
      and "cow_map_sized vmo"
      and "m_physical_pages vmo ! (first_page_index r + page_index) = Some page"
      and "is_readable r \<or> is_writable r"
  shows "\<exists>pte. map_individual_page_impl mm vmo r page_index =
             Returns (True, set_pte mm (pd, vaddr_from_page_index r page_index) pte) \<and>
           pte_present pte \<and> pte_physical_page_base pte = paddr mm page \<and>
           pte_writable pte =
             (is_writable r \<and>
              \<not> (is_sentinel_slot (Some page) \<or>
                 (is_anonymous vmo \<and> \<not> m_shared r \<and>
                  cow_bit vmo (first_page_index r + page_index))))"
proof -
  have sc: "Region_should_cow vmo r page_index =
           Returns (is_anonymous vmo \<and>
             (is_sentinel_slot (Some page) \<or>
              (\<not> m_shared r \<and> cow_bit vmo (first_page_index r + page_index))))"
    using Region_should_cow_eq[OF assms(4,5)] assms(6) by simp
  have pp: "physical_page vmo r page_index = Returns (Some page)"
    using assms(4,6) by (simp add: physical_page_def page_count_def)
  show ?thesis
    using assms(1,2,3,7)
    by (auto simp: map_individual_page_impl_def Let_def pp sc is_sentinel_slot_def
          is_shared_zero_page_def is_lazy_committed_page_def)
qed

lemma ref_count_copy_pages:
  "ref_count (VMObject_copy_pages mm slots) p
     = ref_count mm p + length (filter (\<lambda>s. s = Some p) slots)"
  unfolding VMObject_copy_pages_def
  by (induction slots arbitrary: mm) (auto simp: ref_slot_def ref_page_def split: option.splits)

lemma replace_lazy_committed_length:
  "replace_lazy_committed slots u mm = (slots', u', mm') \<Longrightarrow> length slots' = length slots"
  by (induction slots arbitrary: u mm slots' u' mm')
     (auto simp: Let_def split: if_splits prod.splits)

lemma replace_lazy_committed_other:
  "replace_lazy_committed slots u mm = (slots', u', mm') \<Longrightarrow> i < length slots \<Longrightarrow>
   slots ! i \<noteq> Some LazyCommittedPage \<Longrightarrow> slots' ! i = slots ! i"
proof (induction slots arbitrary: u mm slots' u' mm' i)
  case Nil
  then show ?case by simp
next
  case (Cons s rest)
  then show ?case
    by (cases i) (auto simp: Let_def split: if_splits prod.splits)
qed

lemma ref_count_assign_lazy:
  "p \<noteq> LazyCommittedPage \<Longrightarrow>
   ref_count mm p \<le> ref_count (assign_slot mm (Some LazyCommittedPage) SharedZeroPage) p"
  by (simp add: assign_slot_def unref_slot_def unref_page_def ref_page_def)

lemma replace_lazy_committed_refs:
  "replace_lazy_committed slots u mm = (slots', u', mm') \<Longrightarrow> p \<noteq> LazyCommittedPage \<Longrightarrow>
   ref_count mm p \<le> ref_count mm' p"
proof (induction slots arbitrary: u mm slots' u' mm')
  case Nil
  then show ?case by simp
next
  case (Cons s rest)
  show ?case
  proof (cases "s = Some LazyCommittedPage")
    case True
    let ?mm1 = "assign_slot mm (Some LazyCommittedPage) SharedZeroPage"
    have a: "ref_count mm p \<le> ref_count ?mm1 p" using Cons.prems(2) by (rule ref_count_assign_lazy)
    show ?thesis
    proof (cases "u - 1 = 0")
      case z: True
      then have "mm' = ?mm1" using Cons.prems(1) True by (simp add: Let_def)
      then show ?thesis using a by simp
    next
      case nz: False
      obtain r' v' m' where r: "replace_lazy_committed rest (u - 1) ?mm1 = (r', v', m')"
        by (cases "replace_lazy_committed rest (u - 1) ?mm1") auto
      then have "mm' = m'" using Cons.prems(1) True nz by (simp add: Let_def)
      then show ?thesis using Cons.IH[OF r Cons.prems(2)] a by simp
    qed
  next
    case False
    obtain r' v' m' where r: "replace_lazy_committed rest u mm = (r', v', m')"
      by (cases "replace_lazy_committed rest u mm") auto
    then have "mm' = m'" using Cons.prems(1) False by (simp add: Let_def)
    then show ?thesis using Cons.IH[OF r Cons.prems(2)] by simp
  qed
qed

lemma map_no_lazy_id:
  "count_lazy_committed rest = 0 \<Longrightarrow>
   map (\<lambda>s. if s = Some LazyCommittedPage then Some SharedZeroPage else s) rest = rest"
  by (induction rest) (auto simp: count_lazy_committed_def split: if_splits)

lemma replace_lazy_committed_all:
  "replace_lazy_committed slots u mm = (slots', u', mm') \<Longrightarrow> 0 < u \<Longrightarrow>
   count_lazy_committed slots \<le> u \<Longrightarrow>
   u' = u - count_lazy_committed slots \<and>
   slots' = map (\<lambda>s. if s = Some LazyCommittedPage then Some SharedZeroPage else s) slots"
proof (induction slots arbitrary: u mm slots' u' mm')
  case Nil
  then show ?case by (simp add: count_lazy_committed_def)
next
  case (Cons s rest)
  show ?case
  proof (cases "s = Some LazyCommittedPage")
    case True
    let ?mm1 = "assign_slot mm (Some LazyCommittedPage) SharedZeroPage"
    have cnt: "count_lazy_committed (s # rest) = Suc (count_lazy_committed rest)"
      using True by (simp add: count_lazy_committed_def)
    show ?thesis
    proof (cases "u - 1 = 0")
      case z: True
      then have res: "slots' = Some SharedZeroPage # rest" "u' = u - 1"
        using Cons.prems(1) True by (simp_all add: Let_def)
      have "count_lazy_committed rest = 0" using Cons.prems(2,3) z cnt by simp
      then show ?thesis using res True cnt z by (simp add: map_no_lazy_id)
    next
      case nz: False
      obtain r' v' m' where r: "replace_lazy_committed rest (u - 1) ?mm1 = (r', v', m')"
        by (cases "replace_lazy_committed rest (u - 1) ?mm1") auto
      then have res: "slots' = Some SharedZeroPage # r'" "u' = v'"
        using Cons.prems(1) True nz by (simp_all add: Let_def)
      have "0 < u - 1" "count_lazy_committed rest \<le> u - 1" using nz Cons.prems(3) cnt by simp_all
      from Cons.IH[OF r this] show ?thesis using res True cnt by simp
    qed
  next
    case False
    obtain r' v' m' where r: "replace_lazy_committed rest u mm = (r', v', m')"
      by (cases "replace_lazy_committed rest u mm") auto
    then have res: "slots' = s # r'" "u' = v'" using Cons.prems(1) False by (simp_all add: Let_def)
    have cnt: "count_lazy_committed (s # rest) = count_lazy_committed rest"
      using False by (simp add: count_lazy_committed_def)
    from Cons.IH[OF r Cons.prems(2)] Cons.prems(3) cnt show ?thesis using res False by simp
  qed
qed


lemma copy_constructor_result:
  assumes "AnonymousVMObject_copy mm other = Returns (mm', clone)"
  shows "m_cow_map clone = Some (replicate (page_count other) True)"
    and "length (m_physical_pages clone) = length (m_physical_pages other)"
    and "m_unused_committed_pages clone = 0"
    and "\<And>i. i < length (m_physical_pages other) \<Longrightarrow>
           m_physical_pages other ! i \<noteq> Some LazyCommittedPage \<Longrightarrow>
           m_physical_pages clone ! i = m_physical_pages other ! i"
    and "\<And>p. p \<noteq> LazyCommittedPage \<Longrightarrow>
           ref_count mm p + length (filter (\<lambda>s. s = Some p) (m_physical_pages other))
             \<le> ref_count mm' p"
    and "count_lazy_committed (m_physical_pages other) \<le> m_unused_committed_pages other \<Longrightarrow>
           m_physical_pages clone =
             map (\<lambda>s. if s = Some LazyCommittedPage then Some SharedZeroPage else s)
               (m_physical_pages other)"
proof -
  let ?mm1 = "VMObject_copy_pages mm (m_physical_pages other)"
  let ?u = "m_unused_committed_pages other"
  obtain slots u' mm2 where
    r: "replace_lazy_committed (m_physical_pages other) ?u ?mm1 = (slots, u', mm2)"
    by (cases "replace_lazy_committed (m_physical_pages other) ?u ?mm1") auto
  have shape: "(?u = 0 \<and> mm' = ?mm1 \<and> m_physical_pages clone = m_physical_pages other
                 \<and> m_unused_committed_pages clone = 0)
             \<or> (0 < ?u \<and> u' = 0 \<and> mm' = mm2 \<and> m_physical_pages clone = slots
                 \<and> m_unused_committed_pages clone = 0)"
    using assms r
    by (auto simp: AnonymousVMObject_copy_def Let_def ensure_or_reset_cow_map_def
          ensure_cow_map_def split: if_splits)
  show "m_cow_map clone = Some (replicate (page_count other) True)"
    using assms r
    by (auto simp: AnonymousVMObject_copy_def Let_def ensure_or_reset_cow_map_def
          ensure_cow_map_def page_count_def split: if_splits)
  show "length (m_physical_pages clone) = length (m_physical_pages other)"
    using shape replace_lazy_committed_length[OF r] by auto
  show "m_unused_committed_pages clone = 0" using shape by auto
  show "m_physical_pages clone ! i = m_physical_pages other ! i"
    if "i < length (m_physical_pages other)"
       "m_physical_pages other ! i \<noteq> Some LazyCommittedPage" for i
    using shape replace_lazy_committed_other[OF r that] by auto
  show "ref_count mm p + length (filter (\<lambda>s. s = Some p) (m_physical_pages other))
             \<le> ref_count mm' p" if "p \<noteq> LazyCommittedPage" for p
    using shape replace_lazy_committed_refs[OF r that]
      ref_count_copy_pages[of mm "m_physical_pages other" p] by auto
  show "m_physical_pages clone =
             map (\<lambda>s. if s = Some LazyCommittedPage then Some SharedZeroPage else s)
               (m_physical_pages other)"
    if inv: "count_lazy_committed (m_physical_pages other) \<le> ?u"
  proof -
    from shape show ?thesis
    proof
      assume a: "?u = 0 \<and> mm' = ?mm1 \<and> m_physical_pages clone = m_physical_pages other
                 \<and> m_unused_committed_pages clone = 0"
      then have "count_lazy_committed (m_physical_pages other) = 0" using inv by simp
      then show ?thesis using a by (simp add: map_no_lazy_id)
    next
      assume a: "0 < ?u \<and> u' = 0 \<and> mm' = mm2 \<and> m_physical_pages clone = slots
                 \<and> m_unused_committed_pages clone = 0"
      then have "0 < ?u" by simp
      from replace_lazy_committed_all[OF r this inv] a show ?thesis by simp
    qed
  qed
qed

lemma try_clone_success:
  assumes "try_clone nonvolatile pool_alloc_ok vmo_alloc_ok mm this = Returns (mm', this', Some clone)"
  shows "\<exists>mm2 pool. ref_count mm2 = ref_count mm \<and>
           this' = ensure_or_reset_cow_map (this\<lparr>m_shared_committed_cow_pages := Some pool\<rparr>) \<and>
           AnonymousVMObject_copy mm2 this' = Returns (mm', clone)"
proof -
  let ?need = "sum_list (map range_count nonvolatile)"
  obtain mm1 where c: "commit_user_physical_pages mm ?need = Some mm1"
    using assms by (cases "commit_user_physical_pages mm ?need") (auto simp: try_clone_def)
  have rc1: "ref_count mm1 = ref_count mm"
    using c by (auto simp: commit_user_physical_pages_def split: if_splits)
  let ?mm2 = "fst (create_CommittedCowPages mm1 ?need)"
  let ?pool = "snd (create_CommittedCowPages mm1 ?need)"
  let ?this1 = "ensure_or_reset_cow_map (this\<lparr>m_shared_committed_cow_pages := Some ?pool\<rparr>)"
  have rc2: "ref_count ?mm2 = ref_count mm"
    using rc1 by (simp add: create_CommittedCowPages_def)
  have "this' = ?this1 \<and> AnonymousVMObject_copy ?mm2 ?this1 = Returns (mm', clone)"
    using assms c
    by (auto simp: try_clone_def Let_def split_beta split: if_splits outcome.splits)
  then show ?thesis using rc2 by blast
qed

lemma ensure_or_reset_cow_map_pages:
  "m_physical_pages (ensure_or_reset_cow_map vmo) = m_physical_pages vmo"
  "m_unused_committed_pages (ensure_or_reset_cow_map vmo) = m_unused_committed_pages vmo"
  "page_count (ensure_or_reset_cow_map vmo) = page_count vmo"
  by (auto simp: ensure_or_reset_cow_map_def ensure_cow_map_def page_count_def split: option.splits)

lemma ensure_or_reset_cow_map_bits:
  "cow_map_sized vmo \<Longrightarrow>
   m_cow_map (ensure_or_reset_cow_map vmo) = Some (replicate (page_count vmo) True)"
  by (auto simp: ensure_or_reset_cow_map_def ensure_cow_map_def cow_map_sized_def split: option.splits)

lemma set_should_cow_clears:
  assumes "page_index < page_count vmo" and "cow_map_sized vmo"
  shows "\<exists>bm. set_should_cow vmo page_index False = Returns (vmo\<lparr>m_cow_map := Some bm\<rparr>) \<and>
              length bm = page_count vmo \<and> \<not> bm ! page_index"
  using assms
  by (auto simp: set_should_cow_def ensure_cow_map_def cow_map_sized_def page_count_def Let_def
        split: option.splits)

lemma is_nonvolatile_fields:
  "m_physical_pages (snd (is_nonvolatile nv vmo i)) = m_physical_pages vmo"
  "m_cow_map (snd (is_nonvolatile nv vmo i)) = m_cow_map vmo"
  "m_shared_committed_cow_pages (snd (is_nonvolatile nv vmo i)) = m_shared_committed_cow_pages vmo"
  "m_unused_committed_pages (snd (is_nonvolatile nv vmo i)) = m_unused_committed_pages vmo"
  "m_purgeable_ranges (snd (is_nonvolatile nv vmo i)) = m_purgeable_ranges vmo"
  "vm_kind (snd (is_nonvolatile nv vmo i)) = vm_kind vmo"
  by (simp_all add: is_nonvolatile_def update_volatile_cache_def Let_def)

lemma only_page_tables_differ_refl: "only_page_tables_differ mm mm"
  by (simp add: only_page_tables_differ_def)

lemma only_page_tables_differ_trans:
  assumes "only_page_tables_differ a b" and "only_page_tables_differ b c"
  shows "only_page_tables_differ a c"
proof -
  have "c\<lparr>page_tables := page_tables a\<rparr>
          = (c\<lparr>page_tables := page_tables b\<rparr>)\<lparr>page_tables := page_tables a\<rparr>" by simp
  also have "\<dots> = b\<lparr>page_tables := page_tables a\<rparr>"
    using assms(2) by (simp only: only_page_tables_differ_def)
  also have "\<dots> = a" using assms(1) by (simp only: only_page_tables_differ_def)
  finally show ?thesis by (simp only: only_page_tables_differ_def)
qed

lemma only_page_tables_differ_set_pte: "only_page_tables_differ mm (set_pte mm key pte)"
  by (simp add: only_page_tables_differ_def set_pte_def)

lemma only_page_tables_differ_fields:
  assumes "only_page_tables_differ mm mm'"
  shows "user_range_ceiling mm' = user_range_ceiling mm"
    and "pte_unavailable mm' = pte_unavailable mm"
    and "ref_count mm' = ref_count mm"
    and "next_user_page mm' = next_user_page mm"
    and "page_bytes mm' = page_bytes mm"
    and "user_physical_pages_uncommitted mm' = user_physical_pages_uncommitted mm"
    and "user_physical_pages_committed mm' = user_physical_pages_committed mm"
    and "cow_pools mm' = cow_pools mm"
    and "has_nx mm' = has_nx mm"
    and "shared_zero_paddr mm' = shared_zero_paddr mm"
    and "lazy_committed_paddr mm' = lazy_committed_paddr mm"
proof -
  have e: "mm'\<lparr>page_tables := page_tables mm\<rparr> = mm"
    using assms by (simp only: only_page_tables_differ_def)
  show "user_range_ceiling mm' = user_range_ceiling mm"
    using arg_cong[OF e, of user_range_ceiling] by simp
  show "pte_unavailable mm' = pte_unavailable mm"
    using arg_cong[OF e, of pte_unavailable] by simp
  show "ref_count mm' = ref_count mm" using arg_cong[OF e, of ref_count] by simp
  show "next_user_page mm' = next_user_page mm" using arg_cong[OF e, of next_user_page] by simp
  show "page_bytes mm' = page_bytes mm" using arg_cong[OF e, of page_bytes] by simp
  show "user_physical_pages_uncommitted mm' = user_physical_pages_uncommitted mm"
    using arg_cong[OF e, of user_physical_pages_uncommitted] by simp
  show "user_physical_pages_committed mm' = user_physical_pages_committed mm"
    using arg_cong[OF e, of user_physical_pages_committed] by simp
  show "cow_pools mm' = cow_pools mm" using arg_cong[OF e, of cow_pools] by simp
  show "has_nx mm' = has_nx mm" using arg_cong[OF e, of has_nx] by simp
  show "shared_zero_paddr mm' = shared_zero_paddr mm"
    using arg_cong[OF e, of shared_zero_paddr] by simp
  show "lazy_committed_paddr mm' = lazy_committed_paddr mm"
    using arg_cong[OF e, of lazy_committed_paddr] by simp
qed

lemma mmap_in_user_range_cong:
  "only_page_tables_differ mm mm' \<Longrightarrow> mmap_in_user_range mm' r = mmap_in_user_range mm r"
  by (simp add: mmap_in_user_range_def is_user_address_def only_page_tables_differ_fields(1))

lemma purge_pages_result:
  "i + n \<le> length slots \<Longrightarrow>
   (\<forall>k. i \<le> k \<and> k < i + n \<longrightarrow> slots ! k \<noteq> Some LazyCommittedPage) \<Longrightarrow>
   \<exists>mm'. purge_pages i n (c, mm, slots) =
      Returns (c + length (filter (\<lambda>k. purgeable_slot (slots ! k)) [i..<i + n]), mm',
               map (\<lambda>k. if i \<le> k \<and> k < i + n then Some SharedZeroPage else slots ! k)
                 [0..<length slots])"
proof (induction n arbitrary: i c mm slots)
  case 0
  have "map (\<lambda>k. if i \<le> k \<and> k < i + 0 then Some SharedZeroPage else slots ! k)
          [0..<length slots] = slots"
    by (rule nth_equalityI) auto
  then show ?case by simp
next
  case (Suc n)
  let ?slots1 = "slots[i := Some SharedZeroPage]"
  let ?c1 = "if slots ! i \<noteq> None \<and> slots ! i \<noteq> Some SharedZeroPage then c + 1 else c"
  let ?mm1 = "assign_slot mm (slots ! i) SharedZeroPage"
  have a: "Suc i + n \<le> length ?slots1" using Suc.prems(1) by simp
  have b: "\<forall>k. Suc i \<le> k \<and> k < Suc i + n \<longrightarrow> ?slots1 ! k \<noteq> Some LazyCommittedPage"
    using Suc.prems by (auto simp: nth_list_update)
  from Suc.IH[OF a b, of ?c1 ?mm1] obtain mm' where
    r: "purge_pages (Suc i) n (?c1, ?mm1, ?slots1) =
      Returns (?c1 + length (filter (\<lambda>k. purgeable_slot (?slots1 ! k)) [Suc i..<Suc i + n]), mm',
               map (\<lambda>k. if Suc i \<le> k \<and> k < Suc i + n then Some SharedZeroPage else ?slots1 ! k)
                 [0..<length ?slots1])" by blast
  have step: "purge_pages i (Suc n) (c, mm, slots) = purge_pages (Suc i) n (?c1, ?mm1, ?slots1)"
    using Suc.prems by (auto simp: Let_def)
  have f: "filter (\<lambda>k. purgeable_slot (?slots1 ! k)) [Suc i..<Suc i + n]
         = filter (\<lambda>k. purgeable_slot (slots ! k)) [Suc i..<Suc i + n]"
    by (rule filter_cong) (auto simp: nth_list_update)
  have up: "[i..<i + Suc n] = i # [Suc i..<Suc i + n]"
    by (simp add: upt_conv_Cons del: upt_Suc)
  have cnt: "?c1 + length (filter (\<lambda>k. purgeable_slot (?slots1 ! k)) [Suc i..<Suc i + n])
           = c + length (filter (\<lambda>k. purgeable_slot (slots ! k)) [i..<i + Suc n])"
    unfolding f up by (simp add: purgeable_slot_def)
  have m: "map (\<lambda>k. if Suc i \<le> k \<and> k < Suc i + n then Some SharedZeroPage else ?slots1 ! k)
                 [0..<length ?slots1]
         = map (\<lambda>k. if i \<le> k \<and> k < i + Suc n then Some SharedZeroPage else slots ! k)
                 [0..<length slots]"
    by (rule nth_equalityI) (auto simp: nth_list_update)
  show ?case unfolding step using r[unfolded cnt m] by blast
qed


lemma map_individual_page_total:
  assumes pd: "m_page_directory r = Some pd"
      and idx: "first_page_index r + index < page_count vmo"
      and inr: "index < Region_page_count r"
      and user: "mmap_in_user_range mm r"
      and cow: "cow_map_sized vmo \<or> is_sentinel_slot (m_physical_pages vmo ! (first_page_index r + index))"
  shows "\<exists>ok mm'. map_individual_page_impl mm vmo r index = Returns (ok, mm') \<and>
                  only_page_tables_differ mm mm'"
proof -
  have mm_ok: "m_mmap r \<longrightarrow> 0x00800000 \<le> vaddr_from_page_index r index
                       \<and> is_user_address mm (vaddr_from_page_index r index)"
    using user inr by (simp add: mmap_in_user_range_def list_all_iff)
  show ?thesis
  proof (cases "pte_unavailable mm (pd, vaddr_from_page_index r index)")
    case True
    then have "map_individual_page_impl mm vmo r index = Returns (False, mm)"
      using pd mm_ok by (auto simp: map_individual_page_impl_def Let_def)
    then show ?thesis using only_page_tables_differ_refl by blast
  next
    case avail: False
    show ?thesis
    proof (cases "m_physical_pages vmo ! (first_page_index r + index) = None
           \<or> (\<not> is_readable r \<and> \<not> is_writable r)")
      case True
      from map_individual_page_cleared[OF pd mm_ok avail idx True]
      show ?thesis using only_page_tables_differ_set_pte by metis
    next
      case False
      then obtain page
        where pg: "m_physical_pages vmo ! (first_page_index r + index) = Some page"
          and acc: "is_readable r \<or> is_writable r" by auto
      show ?thesis
      proof (cases "cow_map_sized vmo")
        case True
        from map_individual_page_present[OF pd mm_ok avail idx True pg acc]
        show ?thesis using only_page_tables_differ_set_pte by metis
      next
        case False
        then have sent: "is_sentinel_slot (Some page)" using cow pg by simp
        have pp: "physical_page vmo r index = Returns (Some page)"
          using idx pg by (simp add: physical_page_def page_count_def)
        have "\<exists>pte. map_individual_page_impl mm vmo r index
                 = Returns (True, set_pte mm (pd, vaddr_from_page_index r index) pte)"
          using pd mm_ok avail acc sent
          by (auto simp: map_individual_page_impl_def Let_def pp is_sentinel_slot_def
                is_shared_zero_page_def is_lazy_committed_page_def)
        then show ?thesis using only_page_tables_differ_set_pte by metis
      qed
    qed
  qed
qed

lemma do_remap_vmobject_page_total:
  assumes idx: "page_index < page_count vmo"
      and slot: "m_physical_pages vmo ! page_index \<noteq> None"
      and cow: "cow_map_sized vmo \<or> is_sentinel_slot (m_physical_pages vmo ! page_index)"
      and user: "mmap_in_user_range mm r"
  shows "\<exists>ok mm'. do_remap_vmobject_page mm vmo r page_index = Returns (ok, mm') \<and>
                  only_page_tables_differ mm mm'"
proof (cases "m_page_directory r")
  case None
  then show ?thesis
    using only_page_tables_differ_refl by (auto simp: do_remap_vmobject_page_def)
next
  case (Some pd)
  show ?thesis
  proof (cases "translate_vmobject_page r page_index")
    case None
    then show ?thesis
      using Some only_page_tables_differ_refl by (auto simp: do_remap_vmobject_page_def)
  next
    case tr: (Some index)
    then have i: "first_page_index r + index = page_index" "index < Region_page_count r"
      by (auto simp: translate_vmobject_page_def split: if_splits)
    obtain page where pg: "m_physical_pages vmo ! page_index = Some page" using slot by auto
    have pp: "physical_page vmo r index = Returns (Some page)"
      using idx pg i by (simp add: physical_page_def page_count_def)
    have "do_remap_vmobject_page mm vmo r page_index = map_individual_page_impl mm vmo r index"
      using Some tr pp by (simp add: do_remap_vmobject_page_def)
    moreover have "\<exists>ok mm'. map_individual_page_impl mm vmo r index = Returns (ok, mm') \<and>
                  only_page_tables_differ mm mm'"
      using map_individual_page_total[OF Some _ i(2) user] idx cow i(1) by simp
    ultimately show ?thesis by simp
  qed
qed

lemma remap_regions_total:
  assumes idx: "page_index < page_count vmo"
      and slot: "m_physical_pages vmo ! page_index \<noteq> None"
      and cow: "cow_map_sized vmo \<or> is_sentinel_slot (m_physical_pages vmo ! page_index)"
  shows "list_all (mmap_in_user_range mm) regions \<Longrightarrow>
         \<exists>ok mm'. remap_regions regions vmo page_index success mm = Returns (ok, mm') \<and>
                  only_page_tables_differ mm mm'"
proof (induction regions arbitrary: mm success)
  case Nil
  then show ?case using only_page_tables_differ_refl by simp
next
  case (Cons r rs)
  from Cons.prems have u: "mmap_in_user_range mm r" and us: "list_all (mmap_in_user_range mm) rs"
    by simp_all
  from do_remap_vmobject_page_total[OF idx slot cow u] obtain ok mm1 where
    d: "do_remap_vmobject_page mm vmo r page_index = Returns (ok, mm1)"
    and o: "only_page_tables_differ mm mm1" by blast
  have "list_all (mmap_in_user_range mm1) rs"
    using us mmap_in_user_range_cong[OF o] by (simp add: list_all_iff)
  from Cons.IH[OF this, of "success \<and> ok"] obtain ok' mm' where
    r: "remap_regions rs vmo page_index (success \<and> ok) mm1 = Returns (ok', mm')"
    and o': "only_page_tables_differ mm1 mm'" by blast
  show ?case using d r only_page_tables_differ_trans[OF o o'] by simp
qed

lemma remap_vmobject_page_total:
  assumes "page_index < page_count vmo"
      and "m_physical_pages vmo ! page_index \<noteq> None"
      and "cow_map_sized vmo \<or> is_sentinel_slot (m_physical_pages vmo ! page_index)"
      and "list_all (mmap_in_user_range mm) regions"
  shows "\<exists>ok mm'. remap_vmobject_page mm vmo regions page_index = Returns (ok, mm') \<and>
                  only_page_tables_differ mm mm'"
  unfolding remap_vmobject_page_def using remap_regions_total[OF assms] .


lemma mmap_in_user_range_ceiling:
  "user_range_ceiling mm' = user_range_ceiling mm \<Longrightarrow>
   mmap_in_user_range mm' r = mmap_in_user_range mm r"
  by (simp add: mmap_in_user_range_def is_user_address_def)

lemma assign_slot_ceiling:
  "user_range_ceiling (assign_slot mm old new) = user_range_ceiling mm"
  by (simp add: assign_slot_def unref_slot_def unref_page_def ref_page_def Let_def
        split: option.splits PhysicalPage.splits)

lemma purge_pages_ceiling:
  "purge_pages i n (c, mm, slots) = Returns (c', mm', slots') \<Longrightarrow>
   user_range_ceiling mm' = user_range_ceiling mm"
proof (induction n arbitrary: i c mm slots)
  case 0
  then show ?case by simp
next
  case (Suc n)
  then show ?case
    by (auto simp: Let_def assign_slot_ceiling split: if_splits)
qed

lemma remap_page_range_total:
  "i + n \<le> page_count vmo \<Longrightarrow>
   (\<forall>k. i \<le> k \<and> k < i + n \<longrightarrow> is_sentinel_slot (m_physical_pages vmo ! k)) \<Longrightarrow>
   mmap_in_user_range mm r \<Longrightarrow>
   \<exists>mm'. remap_page_range r vmo i n mm = Returns mm' \<and> only_page_tables_differ mm mm'"
proof (induction n arbitrary: i mm)
  case 0
  then show ?case using only_page_tables_differ_refl by simp
next
  case (Suc n)
  have s: "is_sentinel_slot (m_physical_pages vmo ! i)" using Suc.prems(2) by simp
  then have nn: "m_physical_pages vmo ! i \<noteq> None" by (auto simp: is_sentinel_slot_def)
  have lt: "i < page_count vmo" using Suc.prems(1) by simp
  from do_remap_vmobject_page_total[OF lt nn _ Suc.prems(3)] s obtain ok mm1 where
    d: "do_remap_vmobject_page mm vmo r i = Returns (ok, mm1)"
    and o: "only_page_tables_differ mm mm1" by blast
  have "Suc i + n \<le> page_count vmo" using Suc.prems(1) by simp
  moreover have "\<forall>k. Suc i \<le> k \<and> k < Suc i + n \<longrightarrow> is_sentinel_slot (m_physical_pages vmo ! k)"
    using Suc.prems(2) by simp
  moreover have "mmap_in_user_range mm1 r"
    using Suc.prems(3) mmap_in_user_range_cong[OF o] by simp
  ultimately obtain mm' where
    r: "remap_page_range r vmo (Suc i) n mm1 = Returns mm'"
    and o': "only_page_tables_differ mm1 mm'" using Suc.IH by blast
  show ?case using d r only_page_tables_differ_trans[OF o o'] by simp
qed

lemma remap_regions_range_total:
  assumes "range_base rng + range_count rng \<le> page_count vmo"
      and "\<forall>k. range_covers rng k \<longrightarrow> is_sentinel_slot (m_physical_pages vmo ! k)"
  shows "list_all (mmap_in_user_range mm) regions \<Longrightarrow>
         \<exists>mm'. remap_regions_range regions vmo rng mm = Returns mm' \<and>
               only_page_tables_differ mm mm'"
proof (induction regions arbitrary: mm)
  case Nil
  then show ?case using only_page_tables_differ_refl by simp
next
  case (Cons r rs)
  from Cons.prems have u: "mmap_in_user_range mm r" and us: "list_all (mmap_in_user_range mm) rs"
    by simp_all
  have "\<forall>k. range_base rng \<le> k \<and> k < range_base rng + range_count rng
          \<longrightarrow> is_sentinel_slot (m_physical_pages vmo ! k)"
    using assms(2) by (simp add: range_covers_def)
  from remap_page_range_total[OF assms(1) this u] obtain mm1 where
    d: "remap_page_range r vmo (range_base rng) (range_count rng) mm = Returns mm1"
    and o: "only_page_tables_differ mm mm1" by blast
  have "list_all (mmap_in_user_range mm1) rs"
    using us mmap_in_user_range_cong[OF o] by (simp add: list_all_iff)
  from Cons.IH[OF this] obtain mm' where
    r: "remap_regions_range rs vmo rng mm1 = Returns mm'"
    and o': "only_page_tables_differ mm1 mm'" by blast
  show ?case using d r only_page_tables_differ_trans[OF o o'] by simp
qed

lemma length_filter_subrange:
  "b + c \<le> n \<Longrightarrow>
   length (filter P [b..<b + c]) = length (filter (\<lambda>k. b \<le> k \<and> k < b + c \<and> P k) [0..<n])"
proof -
  assume le: "b + c \<le> n"
  have s1: "[0..<b + c] = [0..<b] @ [b..<b + c]" by (rule upt_add_eq_append) simp
  have s2: "[0..<n] = [0..<b + c] @ [b + c..<n]"
    using le upt_add_eq_append[of 0 "b + c" "n - (b + c)"] by simp
  have split: "[0..<n] = [0..<b] @ [b..<b + c] @ [b + c..<n]"
    using s1 s2 by simp
  have 1: "filter (\<lambda>k. b \<le> k \<and> k < b + c \<and> P k) [0..<b] = []" by (auto simp: filter_empty_conv)
  have 3: "filter (\<lambda>k. b \<le> k \<and> k < b + c \<and> P k) [b + c..<n] = []"
    by (auto simp: filter_empty_conv)
  have 2: "filter (\<lambda>k. b \<le> k \<and> k < b + c \<and> P k) [b..<b + c] = filter P [b..<b + c]"
    by (rule filter_cong) auto
  show ?thesis by (simp only: split filter_append 1 2 3) simp
qed

lemma length_filter_disj:
  "length (filter (\<lambda>k. A k \<and> P k) xs) + length (filter (\<lambda>k. B k \<and> \<not> A k \<and> P k) xs)
     = length (filter (\<lambda>k. (A k \<or> B k) \<and> P k) xs)"
  by (induction xs) auto


lemma purge_slots_nth:
  "k < length slots \<Longrightarrow>
   purge_slots r slots ! k = (if range_covers r k then Some SharedZeroPage else slots ! k)"
  by (simp add: purge_slots_def)

lemma purge_slots_length: "length (purge_slots r slots) = length slots"
  by (simp add: purge_slots_def)

lemma purge_ranges_result:
  "(\<forall>r \<in> set rs. range_base r + range_count r \<le> page_count vmo) \<Longrightarrow>
   (\<forall>r \<in> set rs. \<forall>k. range_covers r k \<longrightarrow> m_physical_pages vmo ! k \<noteq> Some LazyCommittedPage) \<Longrightarrow>
   list_all (mmap_in_user_range mm) regions \<Longrightarrow>
   \<exists>mm' vmo'.
     purge_ranges rs regions (c, mm, vmo) =
       Returns (c + length (filter (\<lambda>k. ranges_contain rs k \<and>
                                        purgeable_slot (m_physical_pages vmo ! k))
                              [0..<page_count vmo]), mm', vmo') \<and>
     m_physical_pages vmo' =
       map (\<lambda>k. if ranges_contain rs k then Some SharedZeroPage else m_physical_pages vmo ! k)
         [0..<page_count vmo] \<and>
     m_purgeable_ranges vmo' =
       map (\<lambda>pr. pr\<lparr>purged_ranges := purged_ranges pr @ ranges_purged (m_physical_pages vmo) rs\<rparr>)
         (m_purgeable_ranges vmo)"
proof (induction rs arbitrary: c mm vmo)
  case Nil
  have "map (\<lambda>k. m_physical_pages vmo ! k) [0..<page_count vmo] = m_physical_pages vmo"
    by (simp add: page_count_def map_nth)
  then show ?case by (simp add: ranges_contain_def)
next
  case (Cons r rest)
  let ?slots = "m_physical_pages vmo"
  let ?n = "length ?slots"
  let ?b = "range_base r"
  let ?cnt = "range_count r"
  let ?p1 = "length (filter (\<lambda>k. purgeable_slot (?slots ! k)) [?b..<?b + ?cnt])"
  let ?slots1 = "purge_slots r ?slots"
  have n: "page_count vmo = ?n" by (simp add: page_count_def)
  have bound: "?b + ?cnt \<le> ?n" using Cons.prems(1) n by simp
  have nolazy: "\<forall>k. ?b \<le> k \<and> k < ?b + ?cnt \<longrightarrow> ?slots ! k \<noteq> Some LazyCommittedPage"
    using Cons.prems(2) by (simp add: range_covers_def)
  have s1: "map (\<lambda>k. if ?b \<le> k \<and> k < ?b + ?cnt then Some SharedZeroPage else ?slots ! k)
              [0..<?n] = ?slots1"
    by (simp add: purge_slots_def range_covers_def)
  from purge_pages_result[OF bound nolazy, of 0 mm] obtain mm1 where
    pp: "purge_pages ?b ?cnt (0, mm, ?slots) = Returns (?p1, mm1, ?slots1)"
    unfolding s1 by auto
  have ceil1: "user_range_ceiling mm1 = user_range_ceiling mm"
    using purge_pages_ceiling[OF pp] .
  have user1: "list_all (mmap_in_user_range mm1) regions"
    using Cons.prems(3) mmap_in_user_range_ceiling[OF ceil1] by (simp add: list_all_iff)
  have pos: "(0 < ?p1) =
      list_ex (\<lambda>k. purgeable_slot (?slots ! k)) [?b..<?b + ?cnt]"
    by (auto simp: list_ex_iff filter_empty_conv)
  \<comment> \<open>facts about the slots after the first range\<close>
  have len1: "length ?slots1 = ?n" by (simp add: purge_slots_length)
  have nolazy1: "\<forall>r' \<in> set rest. \<forall>k. range_covers r' k \<longrightarrow> ?slots1 ! k \<noteq> Some LazyCommittedPage"
  proof (intro ballI allI impI)
    fix r' k assume r': "r' \<in> set rest" and c: "range_covers r' k"
    have "k < ?n" using Cons.prems(1) r' c n by (auto simp: range_covers_def)
    then show "?slots1 ! k \<noteq> Some LazyCommittedPage"
      using Cons.prems(2) r' c by (simp add: purge_slots_nth)
  qed
  have cnt_eq: "?p1 + length (filter (\<lambda>k. ranges_contain rest k \<and> purgeable_slot (?slots1 ! k)) [0..<?n])
      = length (filter (\<lambda>k. ranges_contain (r # rest) k \<and> purgeable_slot (?slots ! k)) [0..<?n])"
  proof -
    have a: "?p1 = length (filter (\<lambda>k. range_covers r k \<and> purgeable_slot (?slots ! k)) [0..<?n])"
      using length_filter_subrange[OF bound, of "\<lambda>k. purgeable_slot (?slots ! k)"]
      by (simp add: range_covers_def conj_assoc)
    have b: "filter (\<lambda>k. ranges_contain rest k \<and> purgeable_slot (?slots1 ! k)) [0..<?n]
           = filter (\<lambda>k. ranges_contain rest k \<and> \<not> range_covers r k \<and> purgeable_slot (?slots ! k)) [0..<?n]"
      by (rule filter_cong) (auto simp: purge_slots_nth purgeable_slot_def)
    show ?thesis
      unfolding a b
      using length_filter_disj[where A = "range_covers r"
              and P = "\<lambda>k. purgeable_slot (?slots ! k)"
              and B = "ranges_contain rest" and xs = "[0..<?n]"]
      by (simp add: ranges_contain_def)
  qed
  have slots_eq: "map (\<lambda>k. if ranges_contain rest k then Some SharedZeroPage else ?slots1 ! k) [0..<?n]
      = map (\<lambda>k. if ranges_contain (r # rest) k then Some SharedZeroPage else ?slots ! k) [0..<?n]"
    by (rule nth_equalityI) (auto simp: purge_slots_nth ranges_contain_def)
  show ?case
  proof (cases "0 < ?p1")
    case False
    let ?vmo1 = "vmo\<lparr>m_physical_pages := ?slots1\<rparr>"
    have step: "purge_ranges (r # rest) regions (c, mm, vmo) = purge_ranges rest regions (c, mm1, ?vmo1)"
      using pp False by simp
    have pc1: "page_count ?vmo1 = ?n" by (simp add: page_count_def len1)
    have b1: "\<forall>r' \<in> set rest. range_base r' + range_count r' \<le> page_count ?vmo1"
      using Cons.prems(1) pc1 n by simp
    have l1: "\<forall>r' \<in> set rest. \<forall>k. range_covers r' k \<longrightarrow> m_physical_pages ?vmo1 ! k \<noteq> Some LazyCommittedPage"
      using nolazy1 by simp
    from Cons.IH[OF b1 l1 user1, of c] obtain mm' vmo' where
      r: "purge_ranges rest regions (c, mm1, ?vmo1) =
       Returns (c + length (filter (\<lambda>k. ranges_contain rest k \<and>
                                        purgeable_slot (m_physical_pages ?vmo1 ! k))
                              [0..<page_count ?vmo1]), mm', vmo')"
      and sl: "m_physical_pages vmo' =
       map (\<lambda>k. if ranges_contain rest k then Some SharedZeroPage else m_physical_pages ?vmo1 ! k)
         [0..<page_count ?vmo1]"
      and pg: "m_purgeable_ranges vmo' =
       map (\<lambda>pr. pr\<lparr>purged_ranges := purged_ranges pr @ ranges_purged (m_physical_pages ?vmo1) rest\<rparr>)
         (m_purgeable_ranges ?vmo1)" by blast
    have z: "?p1 = 0" using False by simp
    have c': "c + length (filter (\<lambda>k. ranges_contain rest k \<and> purgeable_slot (?slots1 ! k)) [0..<?n])
      = c + length (filter (\<lambda>k. ranges_contain (r # rest) k \<and> purgeable_slot (?slots ! k)) [0..<?n])"
      using cnt_eq z by simp
    have rp: "ranges_purged ?slots (r # rest) = ranges_purged ?slots1 rest"
      using False pos by simp
    have r': "purge_ranges rest regions (c, mm1, ?vmo1) =
       Returns (c + length (filter (\<lambda>k. ranges_contain (r # rest) k \<and>
                                        purgeable_slot (?slots ! k)) [0..<?n]), mm', vmo')"
      using r c' by (simp add: pc1)
    have sl': "m_physical_pages vmo' =
       map (\<lambda>k. if ranges_contain (r # rest) k then Some SharedZeroPage else ?slots ! k) [0..<?n]"
    proof -
      have "m_physical_pages vmo' =
        map (\<lambda>k. if ranges_contain rest k then Some SharedZeroPage else ?slots1 ! k) [0..<?n]"
        using sl by (simp add: pc1)
      then show ?thesis using slots_eq by (rule trans)
    qed
    have pg': "m_purgeable_ranges vmo' =
       map (\<lambda>pr. pr\<lparr>purged_ranges := purged_ranges pr @ ranges_purged ?slots (r # rest)\<rparr>)
         (m_purgeable_ranges vmo)"
      unfolding rp using pg by simp
    show ?thesis
      unfolding step n using r' sl' pg' by blast
  next
    case True
    let ?vmo1 = "vmo\<lparr>m_physical_pages := ?slots1\<rparr>"
    let ?vmo2 = "set_was_purged ?vmo1 r"
    have sl2: "m_physical_pages ?vmo2 = ?slots1" by (simp add: set_was_purged_def)
    have pc2: "page_count ?vmo2 = ?n" by (simp add: page_count_def sl2 len1)
    have rb: "range_base r + range_count r \<le> page_count ?vmo2" using bound pc2 by simp
    have sent: "\<forall>k. range_covers r k \<longrightarrow> is_sentinel_slot (m_physical_pages ?vmo2 ! k)"
    proof (intro allI impI)
      fix k assume c: "range_covers r k"
      then have "k < ?n" using bound by (simp add: range_covers_def)
      then show "is_sentinel_slot (m_physical_pages ?vmo2 ! k)"
        using c by (simp add: sl2 purge_slots_nth is_sentinel_slot_def)
    qed
    from remap_regions_range_total[OF rb sent user1] obtain mm2 where
      rm: "remap_regions_range regions ?vmo2 r mm1 = Returns mm2"
      and o: "only_page_tables_differ mm1 mm2" by blast
    have user2: "list_all (mmap_in_user_range mm2) regions"
      using user1 mmap_in_user_range_cong[OF o] by (simp add: list_all_iff)
    have step: "purge_ranges (r # rest) regions (c, mm, vmo)
                  = purge_ranges rest regions (c + ?p1, mm2, ?vmo2)"
      using pp True rm by (simp add: Let_def)
    have b2: "\<forall>r' \<in> set rest. range_base r' + range_count r' \<le> page_count ?vmo2"
      using Cons.prems(1) pc2 n by simp
    have l2: "\<forall>r' \<in> set rest. \<forall>k. range_covers r' k \<longrightarrow> m_physical_pages ?vmo2 ! k \<noteq> Some LazyCommittedPage"
      using nolazy1 sl2 by simp
    from Cons.IH[OF b2 l2 user2, of "c + ?p1"] obtain mm' vmo' where
      r: "purge_ranges rest regions (c + ?p1, mm2, ?vmo2) =
       Returns (c + ?p1 + length (filter (\<lambda>k. ranges_contain rest k \<and>
                                        purgeable_slot (m_physical_pages ?vmo2 ! k))
                              [0..<page_count ?vmo2]), mm', vmo')"
      and sl: "m_physical_pages vmo' =
       map (\<lambda>k. if ranges_contain rest k then Some SharedZeroPage else m_physical_pages ?vmo2 ! k)
         [0..<page_count ?vmo2]"
      and pg: "m_purgeable_ranges vmo' =
       map (\<lambda>pr. pr\<lparr>purged_ranges := purged_ranges pr @ ranges_purged (m_physical_pages ?vmo2) rest\<rparr>)
         (m_purgeable_ranges ?vmo2)" by blast
    have c': "c + ?p1 + length (filter (\<lambda>k. ranges_contain rest k \<and> purgeable_slot (?slots1 ! k)) [0..<?n])
      = c + length (filter (\<lambda>k. ranges_contain (r # rest) k \<and> purgeable_slot (?slots ! k)) [0..<?n])"
      using cnt_eq by simp
    have rp: "ranges_purged ?slots (r # rest)
                = r\<lparr>range_was_purged := True\<rparr> # ranges_purged ?slots1 rest"
      using True pos by simp
    have pg2: "m_purgeable_ranges ?vmo2
                 = map (\<lambda>pr. PurgeablePageRanges_set_was_purged pr r) (m_purgeable_ranges vmo)"
      by (simp add: set_was_purged_def)
    have r': "purge_ranges rest regions (c + ?p1, mm2, ?vmo2) =
       Returns (c + length (filter (\<lambda>k. ranges_contain (r # rest) k \<and>
                                        purgeable_slot (?slots ! k)) [0..<?n]), mm', vmo')"
      using r c' by (simp only: pc2 sl2)
    have sl': "m_physical_pages vmo' =
       map (\<lambda>k. if ranges_contain (r # rest) k then Some SharedZeroPage else ?slots ! k) [0..<?n]"
    proof -
      have "m_physical_pages vmo' =
        map (\<lambda>k. if ranges_contain rest k then Some SharedZeroPage else ?slots1 ! k) [0..<?n]"
        using sl by (simp only: pc2 sl2)
      then show ?thesis using slots_eq by (rule trans)
    qed
    have pg': "m_purgeable_ranges vmo' =
       map (\<lambda>pr. pr\<lparr>purged_ranges := purged_ranges pr @ ranges_purged ?slots (r # rest)\<rparr>)
         (m_purgeable_ranges vmo)"
      unfolding rp using pg
      by (simp add: sl2 pg2 PurgeablePageRanges_set_was_purged_def comp_def)
    show ?thesis
      unfolding step n using r' sl' pg' by blast
  qed
qed



lemma cow_map_sized_set_slot:
  "cow_map_sized vmo \<Longrightarrow> cow_map_sized (set_slot vmo i s)"
  by (simp add: cow_map_sized_def set_slot_def page_count_def split: option.splits)











lemma mmap_in_user_range_alloc_user:
  "mmap_in_user_range (fst (allocate_user_physical_page mm z)) r = mmap_in_user_range mm r"
  by (rule mmap_in_user_range_ceiling)
     (simp add: allocate_user_physical_page_def fresh_page_def Let_def split_beta)

lemma region_shared_rw_facts:
  "Region_page_count region_shared_rw = 1"
  "first_page_index region_shared_rw = 0"
  "m_page_directory region_shared_rw = Some 0"
  "vaddr_from_page_index region_shared_rw 0 = 0x00800000"
  "m_mmap region_shared_rw"
  "translate_to_vmobject_page region_shared_rw 0 = 0"
  "translate_vmobject_page region_shared_rw 0 = Some 0"
  "is_readable region_shared_rw" "is_writable region_shared_rw"
  "m_cacheable region_shared_rw" "\<not> is_executable region_shared_rw"
  "m_shared region_shared_rw"
  by (simp_all add: region_shared_rw_def region_private_rw_def Region_page_count_def
        PAGE_SIZE_def first_page_index_def vaddr_from_page_index_def
        translate_to_vmobject_page_def translate_vmobject_page_def)

lemma one_byte_fits: "\<not> PAGE_SIZE < Suc 0" "Suc 0 \<le> PAGE_SIZE" "0 < PAGE_SIZE"
  by (simp_all add: PAGE_SIZE_def)

subsection \<open>Mapping one page\<close>

text \<open>C1, as amended. For a page index of a region that is mapped in a page directory,
  where \<^verbatim>\<open>ensure_pte\<close> produces the entry (and an mmap region lies at user addresses),
  \<^verbatim>\<open>map_individual_page_impl\<close> returns true. It clears the entry when the slot is null or
  the region is neither readable nor writable. Otherwise the entry is present, and it is
  writable exactly when the region is writable and neither the slot holds a sentinel page
  nor \<^verbatim>\<open>should_cow\<close> holds: the VM object is anonymous, the region is not shared and the
  cow bit of the page is set. A sentinel slot never yields a writable present entry.\<close>

theorem map_individual_page_pte:
  assumes "m_page_directory r = Some pd"
      and "m_mmap r \<longrightarrow> 0x00800000 \<le> vaddr_from_page_index r page_index
                       \<and> is_user_address mm (vaddr_from_page_index r page_index)"
      and "\<not> pte_unavailable mm (pd, vaddr_from_page_index r page_index)"
      and "first_page_index r + page_index < page_count vmo"
      and "cow_map_sized vmo"
  shows "\<exists>mm'. map_individual_page_impl mm vmo r page_index = Returns (True, mm') \<and>
           (let slot = m_physical_pages vmo ! (first_page_index r + page_index);
                pte = page_tables mm' (pd, vaddr_from_page_index r page_index)
            in if slot = None \<or> (\<not> is_readable r \<and> \<not> is_writable r) then pte = pte_clear
               else pte_present pte \<and>
                    pte_writable pte =
                      (is_writable r \<and>
                       \<not> (is_sentinel_slot slot \<or>
                          (is_anonymous vmo \<and> \<not> m_shared r \<and>
                           cow_bit vmo (first_page_index r + page_index)))) \<and>
                    (is_sentinel_slot slot \<longrightarrow> \<not> pte_writable pte))"
proof (cases "m_physical_pages vmo ! (first_page_index r + page_index) = None
           \<or> (\<not> is_readable r \<and> \<not> is_writable r)")
  case True
  show ?thesis
    using map_individual_page_cleared[OF assms(1,2,3,4) True] True
    by (auto simp: set_pte_def Let_def)
next
  case False
  then obtain page
    where pg: "m_physical_pages vmo ! (first_page_index r + page_index) = Some page"
      and acc: "is_readable r \<or> is_writable r" by auto
  from map_individual_page_present[OF assms pg acc]
  obtain pte where "map_individual_page_impl mm vmo r page_index =
             Returns (True, set_pte mm (pd, vaddr_from_page_index r page_index) pte)"
     and "pte_present pte"
     and "pte_writable pte =
             (is_writable r \<and>
              \<not> (is_sentinel_slot (Some page) \<or>
                 (is_anonymous vmo \<and> \<not> m_shared r \<and>
                  cow_bit vmo (first_page_index r + page_index))))" by blast
  then show ?thesis using False pg
    by (auto simp: set_pte_def Let_def)
qed

text \<open>The amended C1 at two inputs: a private region over a page whose cow bit is set,
  and over a lazy-committed slot. Both entries are present and not writable.\<close>

theorem map_individual_page_pte_witness:
  "m_page_directory region_private_rw = Some 0 \<and>
   m_mmap region_private_rw \<and> 0x00800000 \<le> vaddr_from_page_index region_private_rw 0 \<and>
   is_user_address mm_boot (vaddr_from_page_index region_private_rw 0) \<and>
   \<not> pte_unavailable mm_boot (0, vaddr_from_page_index region_private_rw 0) \<and>
   first_page_index region_private_rw + 0 < page_count vmo_cow_page \<and>
   first_page_index region_private_rw + 0 < page_count vmo_reserved \<and>
   cow_map_sized vmo_cow_page \<and> cow_map_sized vmo_reserved \<and>
   is_sentinel_slot (m_physical_pages vmo_reserved ! 0) \<and>
   (\<exists>mm'. map_individual_page_impl mm_boot vmo_cow_page region_private_rw 0
             = Returns (True, mm') \<and>
      pte_present (page_tables mm' (0, 0x00800000)) \<and>
      \<not> pte_writable (page_tables mm' (0, 0x00800000))) \<and>
   (\<exists>mm'. map_individual_page_impl mm_boot vmo_reserved region_private_rw 0
             = Returns (True, mm') \<and>
      pte_present (page_tables mm' (0, 0x00800000)) \<and>
      \<not> pte_writable (page_tables mm' (0, 0x00800000)))"
  using map_individual_page_pte[of region_private_rw 0 0 mm_boot vmo_cow_page]
        map_individual_page_pte[of region_private_rw 0 0 mm_boot vmo_reserved]
  by (simp add: mm_boot_def vmo_cow_page_def vmo_reserved_def region_private_rw_def
        vaddr_from_page_index_def is_user_address_def
        first_page_index_def page_count_def cow_map_sized_def cow_bit_def is_sentinel_slot_def
        is_anonymous_def Let_def)

text \<open>C1 as stated fails for a shared region: over a page that holds a frame and has
  its cow bit set, a shared writable region gets a writable entry, where the claim's
  formula (writable and not (sentinel or cow bit set)) gives a read-only one.\<close>

theorem map_individual_page_shared_cow_counterexample:
  "map_individual_page_impl mm_boot vmo_cow_page region_shared_rw 0 =
     Returns (True, set_pte mm_boot (0, 0x00800000)
       \<lparr>pte_present = True, pte_writable = True, pte_user_allowed = True,
        pte_cache_disabled = False, pte_execute_disabled = True,
        pte_physical_page_base = 256\<rparr>) \<and>
   pte_writable (page_tables (set_pte mm_boot (0, 0x00800000)
       \<lparr>pte_present = True, pte_writable = True, pte_user_allowed = True,
        pte_cache_disabled = False, pte_execute_disabled = True,
        pte_physical_page_base = 256\<rparr>) (0, 0x00800000)) \<noteq>
     (is_writable region_shared_rw \<and>
      \<not> (is_sentinel_slot (m_physical_pages vmo_cow_page ! 0) \<or> cow_bit vmo_cow_page 0))"
  by (simp add: map_individual_page_impl_def mm_boot_def vmo_cow_page_def region_shared_rw_def
        region_private_rw_def vaddr_from_page_index_def PAGE_SIZE_def is_user_address_def
        physical_page_def first_page_index_def is_shared_zero_page_def
        is_lazy_committed_page_def Region_should_cow_def is_anonymous_def should_cow_def
        set_pte_def pte_clear_def paddr_def cow_bit_def is_sentinel_slot_def Let_def)

subsection \<open>Cloning an anonymous VM object\<close>

text \<open>C2: when committing the needed number of pages fails, \<^verbatim>\<open>try_clone\<close> returns
  null, and the VM object and the memory manager (the cow bitmap, the slots and their
  reference counts, the unused-committed counter, the shared pool) are what they were
  before the call.\<close>

theorem try_clone_commit_failure:
  assumes "commit_user_physical_pages mm (sum_list (map range_count nonvolatile)) = None"
  shows "try_clone nonvolatile pool_alloc_ok vmo_alloc_ok mm this = Returns (mm, this, None)"
  using assms by (simp add: try_clone_def)

text \<open>C2 at a memory manager with no page left to commit.\<close>

theorem try_clone_commit_failure_witness:
  "commit_user_physical_pages mm_exhausted (sum_list (map range_count nonvolatile_two_pages))
     = None \<and>
   try_clone nonvolatile_two_pages True True mm_exhausted vmo_reserved
     = Returns (mm_exhausted, vmo_reserved, None)"
  using try_clone_commit_failure[of mm_exhausted nonvolatile_two_pages True True vmo_reserved]
  by (simp add: commit_user_physical_pages_def mm_exhausted_def mm_reserved_def mm_boot_def
        nonvolatile_two_pages_def)

text \<open>C3, as amended. After a successful \<^verbatim>\<open>try_clone\<close> the slots of the parent are
  unchanged, the cow bit of every page is set in the parent and in the clone, and for every
  page whose slot in the parent holds a page other than the lazy-committed sentinel the
  clone holds the same page, whose reference count is at least 2. A lazy-committed slot of
  the parent is not shared: the parent keeps the sentinel and, when the unused-committed
  counter of the parent is at least the number of its lazy-committed slots (the invariant
  of the data model), the clone holds the shared zero page there. The cow bitmap of the
  parent, when it has one, has one bit per page, and every page in a slot of the parent
  is referenced at least once before the call.\<close>

theorem try_clone_shares_pages:
  assumes "try_clone nonvolatile pool_alloc_ok vmo_alloc_ok mm this
             = Returns (mm', this', Some clone)"
      and "cow_map_sized this"
      and "\<forall>s \<in> set (m_physical_pages this). \<forall>p. s = Some p \<longrightarrow> 1 \<le> ref_count mm p"
  shows "m_physical_pages this' = m_physical_pages this \<and>
         page_count clone = page_count this \<and>
         (\<forall>i < page_count this. cow_bit this' i \<and> cow_bit clone i) \<and>
         (\<forall>i < page_count this. \<forall>p.
            m_physical_pages this ! i = Some p \<and> p \<noteq> LazyCommittedPage \<longrightarrow>
            m_physical_pages clone ! i = Some p \<and> 2 \<le> ref_count mm' p) \<and>
         (count_lazy_committed (m_physical_pages this) \<le> m_unused_committed_pages this \<longrightarrow>
          (\<forall>i < page_count this.
             m_physical_pages this ! i = Some LazyCommittedPage \<longrightarrow>
             m_physical_pages this' ! i = Some LazyCommittedPage \<and>
             m_physical_pages clone ! i = Some SharedZeroPage \<and>
             m_physical_pages clone ! i \<noteq> m_physical_pages this' ! i))"
proof -
  from try_clone_success[OF assms(1)] obtain mm2 pool where
    rc: "ref_count mm2 = ref_count mm" and
    t: "this' = ensure_or_reset_cow_map (this\<lparr>m_shared_committed_cow_pages := Some pool\<rparr>)" and
    c: "AnonymousVMObject_copy mm2 this' = Returns (mm', clone)" by blast
  have pages: "m_physical_pages this' = m_physical_pages this"
    using t by (simp add: ensure_or_reset_cow_map_pages)
  have pc: "page_count this' = page_count this" using pages by (simp add: page_count_def)
  have "cow_map_sized (this\<lparr>m_shared_committed_cow_pages := Some pool\<rparr>)"
    using assms(2) by (simp add: cow_map_sized_def page_count_def split: option.splits)
  from ensure_or_reset_cow_map_bits[OF this]
  have bits: "m_cow_map this' = Some (replicate (page_count this) True)"
    using t by (simp add: page_count_def)
  note cc = copy_constructor_result[OF c]
  have cbits: "m_cow_map clone = Some (replicate (page_count this) True)"
    using cc(1) pc by simp
  have len: "page_count clone = page_count this" using cc(2) pages by (simp add: page_count_def)
  have shared: "m_physical_pages clone ! i = Some p \<and> 2 \<le> ref_count mm' p"
    if "i < page_count this" "m_physical_pages this ! i = Some p" "p \<noteq> LazyCommittedPage" for i p
  proof -
    have i: "i < length (m_physical_pages this')" using that(1) pages by (simp add: page_count_def)
    have "m_physical_pages clone ! i = m_physical_pages this' ! i"
      using cc(4)[OF i] that(2,3) pages by simp
    then have 1: "m_physical_pages clone ! i = Some p" using that(2) pages by simp
    have mem: "Some p \<in> set (m_physical_pages this)"
      using that(1,2) by (metis nth_mem page_count_def)
    then have "1 \<le> ref_count mm p" using assms(3) by blast
    moreover have "1 \<le> length (filter (\<lambda>s. s = Some p) (m_physical_pages this'))"
      using mem pages by (auto simp: Suc_le_eq filter_empty_conv)
    ultimately have "2 \<le> ref_count mm' p" using cc(5)[OF that(3)] rc by simp
    with 1 show ?thesis by simp
  qed
  have unused: "m_unused_committed_pages this' = m_unused_committed_pages this"
    using t by (simp add: ensure_or_reset_cow_map_pages)
  have lazy: "m_physical_pages this' ! i = Some LazyCommittedPage \<and>
              m_physical_pages clone ! i = Some SharedZeroPage \<and>
              m_physical_pages clone ! i \<noteq> m_physical_pages this' ! i"
    if inv: "count_lazy_committed (m_physical_pages this) \<le> m_unused_committed_pages this"
      and i: "i < page_count this"
      and l: "m_physical_pages this ! i = Some LazyCommittedPage" for i
  proof -
    have m: "m_physical_pages clone =
               map (\<lambda>s. if s = Some LazyCommittedPage then Some SharedZeroPage else s)
                 (m_physical_pages this)"
      using cc(6) inv pages unused by simp
    have "i < length (m_physical_pages this)" using i by (simp add: page_count_def)
    then have "m_physical_pages clone ! i = Some SharedZeroPage" using m l by simp
    then show ?thesis using pages l by simp
  qed
  have first: "m_physical_pages this' = m_physical_pages this \<and>
         page_count clone = page_count this \<and>
         (\<forall>i < page_count this. cow_bit this' i \<and> cow_bit clone i) \<and>
         (\<forall>i < page_count this. \<forall>p.
            m_physical_pages this ! i = Some p \<and> p \<noteq> LazyCommittedPage \<longrightarrow>
            m_physical_pages clone ! i = Some p \<and> 2 \<le> ref_count mm' p)"
    using pages len bits cbits shared by (auto simp: cow_bit_def)
  show ?thesis using first lazy by blast
qed

text \<open>The amended C3 at the clone of a two-page object that holds page 256 and one
  lazy-committed slot: page 256 is shared, the lazy-committed slot is not.\<close>

theorem try_clone_shares_pages_witness:
  "cow_map_sized vmo_touched \<and> 1 \<le> ref_count mm_touched (UserPage 256) \<and>
   1 \<le> ref_count mm_touched LazyCommittedPage \<and>
   count_lazy_committed (m_physical_pages vmo_touched) \<le> m_unused_committed_pages vmo_touched \<and>
   (\<exists>mm' this' clone.
      try_clone nonvolatile_two_pages True True mm_touched vmo_touched
        = Returns (mm', this', Some clone) \<and>
      cow_bit this' 0 \<and> cow_bit clone 0 \<and> cow_bit this' 1 \<and> cow_bit clone 1 \<and>
      m_physical_pages this' ! 0 = Some (UserPage 256) \<and>
      m_physical_pages clone ! 0 = Some (UserPage 256) \<and>
      2 \<le> ref_count mm' (UserPage 256) \<and>
      m_physical_pages this' ! 1 = Some LazyCommittedPage \<and>
      m_physical_pages clone ! 1 = Some SharedZeroPage)"
proof -
  obtain mm' this' clone where
    r: "try_clone nonvolatile_two_pages True True mm_touched vmo_touched
          = Returns (mm', this', Some clone)"
    by (simp add: try_clone_def nonvolatile_two_pages_def commit_user_physical_pages_def
          mm_touched_def mm_boot_def create_CommittedCowPages_def vmo_touched_def
          vmo_reserved_def ensure_or_reset_cow_map_def AnonymousVMObject_copy_def Let_def
          ensure_cow_map_def page_count_def)
  have h2: "cow_map_sized vmo_touched"
    by (simp add: cow_map_sized_def vmo_touched_def vmo_reserved_def)
  have h3: "\<forall>s \<in> set (m_physical_pages vmo_touched). \<forall>p. s = Some p
              \<longrightarrow> 1 \<le> ref_count mm_touched p"
    by (simp add: vmo_touched_def vmo_reserved_def mm_touched_def mm_boot_def)
  have inv: "count_lazy_committed (m_physical_pages vmo_touched)
               \<le> m_unused_committed_pages vmo_touched"
    by (simp add: count_lazy_committed_def vmo_touched_def vmo_reserved_def)
  have refs: "1 \<le> ref_count mm_touched (UserPage 256)"
    "1 \<le> ref_count mm_touched LazyCommittedPage"
    by (simp_all add: mm_touched_def mm_boot_def)
  have slots: "m_physical_pages vmo_touched ! 0 = Some (UserPage 256)"
    "m_physical_pages vmo_touched ! 1 = Some LazyCommittedPage"
    "page_count vmo_touched = 2"
    by (simp_all add: vmo_touched_def vmo_reserved_def page_count_def)
  note clone = try_clone_shares_pages[OF r h2 h3]
  have pages: "m_physical_pages this' = m_physical_pages vmo_touched"
    using clone by blast
  have bits: "\<forall>i < page_count vmo_touched. cow_bit this' i \<and> cow_bit clone i"
    using clone by blast
  have shared: "\<forall>i < page_count vmo_touched. \<forall>p.
            m_physical_pages vmo_touched ! i = Some p \<and> p \<noteq> LazyCommittedPage \<longrightarrow>
            m_physical_pages clone ! i = Some p \<and> 2 \<le> ref_count mm' p"
    using clone by blast
  have lazy: "\<forall>i < page_count vmo_touched.
             m_physical_pages vmo_touched ! i = Some LazyCommittedPage \<longrightarrow>
             m_physical_pages this' ! i = Some LazyCommittedPage \<and>
             m_physical_pages clone ! i = Some SharedZeroPage \<and>
             m_physical_pages clone ! i \<noteq> m_physical_pages this' ! i"
    using clone inv by blast
  have i0: "0 < page_count vmo_touched" and i1: "1 < page_count vmo_touched"
    using slots(3) by simp_all
  have ne: "UserPage 256 \<noteq> LazyCommittedPage" by simp
  have b0: "cow_bit this' 0 \<and> cow_bit clone 0" using bits i0 by blast
  have b1: "cow_bit this' 1 \<and> cow_bit clone 1" using bits i1 by blast
  have s0: "m_physical_pages clone ! 0 = Some (UserPage 256) \<and> 2 \<le> ref_count mm' (UserPage 256)"
    using shared i0 slots(1) ne by blast
  have l1: "m_physical_pages this' ! 1 = Some LazyCommittedPage \<and>
            m_physical_pages clone ! 1 = Some SharedZeroPage"
    using lazy i1 slots(2) by blast
  have p0: "m_physical_pages this' ! 0 = Some (UserPage 256)" using pages slots(1) by simp
  show ?thesis
    using r h2 inv refs b0 b1 s0 l1 p0 by blast
qed

text \<open>C3 as stated fails for a lazy-committed slot. The object that
  \<^verbatim>\<open>try_create_with_size\<close> reserves two pages for is cloned: page 0 of the parent still
  holds the lazy-committed sentinel, page 0 of the clone holds the shared zero page.\<close>

theorem try_clone_lazy_not_shared_counterexample:
  "try_clone nonvolatile_two_pages True True mm_reserved vmo_reserved
     = Returns (mm_cloned, vmo_reserved_parent, Some vmo_reserved_clone) \<and>
   m_physical_pages vmo_reserved_parent ! 0 = Some LazyCommittedPage \<and>
   m_physical_pages vmo_reserved_clone ! 0 = Some SharedZeroPage \<and>
   m_physical_pages vmo_reserved_clone ! 0 \<noteq> m_physical_pages vmo_reserved_parent ! 0"
  by (simp add: try_clone_def nonvolatile_two_pages_def commit_user_physical_pages_def
        mm_reserved_def mm_boot_def create_CommittedCowPages_def vmo_reserved_def
        ensure_or_reset_cow_map_def AnonymousVMObject_copy_def Let_def ensure_cow_map_def
        VMObject_copy_pages_def ref_slot_def ref_page_def assign_slot_def unref_slot_def
        unref_page_def page_count_def mm_cloned_def vmo_reserved_parent_def
        vmo_reserved_clone_def numeral_2_eq_2 numeral_3_eq_3)

text \<open>C9: the clone that a successful \<^verbatim>\<open>try_clone\<close> returns holds no lazy-committed
  slot and its unused-committed counter is zero: its slots are the parent's with every
  lazy-committed slot replaced by the shared zero page. The parent satisfies the
  invariant of the data model, that its counter is at least the number of its
  lazy-committed slots.\<close>

theorem try_clone_child_has_no_lazy_pages:
  assumes "try_clone nonvolatile pool_alloc_ok vmo_alloc_ok mm this
             = Returns (mm', this', Some clone)"
      and "count_lazy_committed (m_physical_pages this) \<le> m_unused_committed_pages this"
  shows "count_lazy_committed (m_physical_pages clone) = 0 \<and>
         m_unused_committed_pages clone = 0 \<and>
         m_physical_pages clone =
           map (\<lambda>s. if s = Some LazyCommittedPage then Some SharedZeroPage else s)
             (m_physical_pages this)"
proof -
  from try_clone_success[OF assms(1)] obtain mm2 pool where
    t: "this' = ensure_or_reset_cow_map (this\<lparr>m_shared_committed_cow_pages := Some pool\<rparr>)" and
    c: "AnonymousVMObject_copy mm2 this' = Returns (mm', clone)" by blast
  have pages: "m_physical_pages this' = m_physical_pages this"
    and unused: "m_unused_committed_pages this' = m_unused_committed_pages this"
    using t by (simp_all add: ensure_or_reset_cow_map_pages)
  note cc = copy_constructor_result[OF c]
  have m: "m_physical_pages clone =
           map (\<lambda>s. if s = Some LazyCommittedPage then Some SharedZeroPage else s)
             (m_physical_pages this)"
    using cc(6) assms(2) pages unused by simp
  have "count_lazy_committed (m_physical_pages clone) = 0"
    unfolding m count_lazy_committed_def by (induction "m_physical_pages this") auto
  then show ?thesis using m cc(3) by simp
qed

text \<open>C9 at the clone of the object with two reserved pages.\<close>

theorem try_clone_child_has_no_lazy_pages_witness:
  "count_lazy_committed (m_physical_pages vmo_reserved) \<le> m_unused_committed_pages vmo_reserved \<and>
   (\<exists>mm' this' clone.
      try_clone nonvolatile_two_pages True True mm_reserved vmo_reserved
        = Returns (mm', this', Some clone) \<and>
      m_physical_pages clone = [Some SharedZeroPage, Some SharedZeroPage] \<and>
      m_unused_committed_pages clone = 0)"
proof -
  obtain mm' this' clone where
    r: "try_clone nonvolatile_two_pages True True mm_reserved vmo_reserved
          = Returns (mm', this', Some clone)"
    by (simp add: try_clone_def nonvolatile_two_pages_def commit_user_physical_pages_def
          mm_reserved_def mm_boot_def create_CommittedCowPages_def vmo_reserved_def
          ensure_or_reset_cow_map_def AnonymousVMObject_copy_def Let_def ensure_cow_map_def
          page_count_def)
  have h: "count_lazy_committed (m_physical_pages vmo_reserved)
             \<le> m_unused_committed_pages vmo_reserved"
    by (simp add: count_lazy_committed_def vmo_reserved_def)
  have "m_physical_pages vmo_reserved = [Some LazyCommittedPage, Some LazyCommittedPage]"
    by (simp add: vmo_reserved_def)
  then show ?thesis
    using try_clone_child_has_no_lazy_pages[OF r h] r h by auto
qed

subsection \<open>Copy-on-write fault on a page nobody shares\<close>

text \<open>On the branch of \<^verbatim>\<open>AnonymousVMObject::handle_cow_fault\<close> for a page whose slot holds
  a page with reference count 1, the fault returns Continue, clears the cow bit of the
  page, leaves the slots as they are and allocates nothing. The pool gives one committed
  page back, and the object drops its pool reference if that drained the pool, exactly
  when there is a pool and the page lies in none of the cached ranges, which
  \<^verbatim>\<open>update_volatile_cache\<close> takes from \<^verbatim>\<open>for_each_nonvolatile_range\<close>; with a null pool
  reference the pool is not touched.\<close>

lemma handle_cow_fault_refcount_one:
  assumes idx: "page_index < page_count vmo"
      and slot: "m_physical_pages vmo ! page_index = Some page"
      and rc: "ref_count mm page = 1"
      and sized: "cow_map_sized vmo"
      and cache: "cache = (if m_volatile_ranges_cache_dirty vmo then nonvolatile
                           else m_volatile_ranges_cache vmo)"
      and credit: "\<forall>pool. m_shared_committed_cow_pages vmo = Some pool \<and>
                    \<not> ranges_contain cache page_index \<longrightarrow> 0 < cow_pools mm pool"
  shows "\<exists>mm' vmo'.
           AnonymousVMObject_handle_cow_fault nonvolatile copy mm vmo page_index
             = Returns (Continue, mm', vmo') \<and>
           m_physical_pages vmo' = m_physical_pages vmo \<and>
           \<not> cow_bit vmo' page_index \<and>
           next_user_page mm' = next_user_page mm \<and>
           ref_count mm' = ref_count mm \<and>
           page_bytes mm' = page_bytes mm \<and>
           (if m_shared_committed_cow_pages vmo \<noteq> None \<and> \<not> ranges_contain cache page_index
            then \<exists>pool. m_shared_committed_cow_pages vmo = Some pool \<and>
                   cow_pools mm' pool = cow_pools mm pool - 1 \<and>
                   user_physical_pages_committed mm' = user_physical_pages_committed mm - 1 \<and>
                   user_physical_pages_uncommitted mm' = user_physical_pages_uncommitted mm + 1 \<and>
                   m_shared_committed_cow_pages vmo' =
                     (if cow_pools mm pool = 1 then None else Some pool)
            else mm' = mm \<and>
                 m_shared_committed_cow_pages vmo' = m_shared_committed_cow_pages vmo)"
proof -
  have len: "page_index < length (m_physical_pages vmo)" using idx by (simp add: page_count_def)
  show ?thesis
  proof (cases "m_shared_committed_cow_pages vmo")
    case None
    from set_should_cow_clears[OF idx sized] obtain bm where
      s: "set_should_cow vmo page_index False = Returns (vmo\<lparr>m_cow_map := Some bm\<rparr>)"
      and b: "length bm = page_count vmo" "\<not> bm ! page_index" by blast
    have "AnonymousVMObject_handle_cow_fault nonvolatile copy mm vmo page_index
            = Returns (Continue, mm, vmo\<lparr>m_cow_map := Some bm\<rparr>)"
      using len slot rc None s by (simp add: AnonymousVMObject_handle_cow_fault_def)
    then show ?thesis using None b by (simp add: cow_bit_def)
  next
    case (Some pool)
    obtain hc vmo1 where nv: "is_nonvolatile nonvolatile vmo page_index = (hc, vmo1)"
      by (cases "is_nonvolatile nonvolatile vmo page_index") auto
    have f1: "m_physical_pages vmo1 = m_physical_pages vmo"
      and f2: "m_cow_map vmo1 = m_cow_map vmo"
      and f3: "m_shared_committed_cow_pages vmo1 = Some pool"
      using is_nonvolatile_fields(1,2,3)[of nonvolatile vmo page_index] nv Some by simp_all
    have idx1: "page_index < page_count vmo1" using idx f1 by (simp add: page_count_def)
    have sized1: "cow_map_sized vmo1" using sized f1 f2
      by (simp add: cow_map_sized_def page_count_def split: option.splits)
    from set_should_cow_clears[OF idx1 sized1] obtain bm where
      s: "set_should_cow vmo1 page_index False = Returns (vmo1\<lparr>m_cow_map := Some bm\<rparr>)"
      and b: "length bm = page_count vmo1" "\<not> bm ! page_index" by blast
    have hc_eq: "(\<not> ranges_contain cache page_index) = hc"
      using nv cache
      by (auto simp: is_nonvolatile_def update_volatile_cache_def Let_def split: if_splits)
    show ?thesis
    proof (cases hc)
      case False
      have "AnonymousVMObject_handle_cow_fault nonvolatile copy mm vmo page_index
            = Returns (Continue, mm, vmo1\<lparr>m_cow_map := Some bm\<rparr>)"
        using len slot rc Some nv s False by (simp add: AnonymousVMObject_handle_cow_fault_def)
      then show ?thesis using False hc_eq b f1 f3 Some by (simp add: cow_bit_def)
    next
      case True
      then have pos: "0 < cow_pools mm pool" using credit hc_eq Some by simp
      let ?mm1 = "mm\<lparr>cow_pools := (cow_pools mm)(pool := cow_pools mm pool - 1)\<rparr>"
      have ro: "return_one mm pool
                  = Returns (cow_pools mm pool = 1, uncommit_user_physical_pages ?mm1 1)"
        using pos by (auto simp: return_one_def Let_def)
      let ?vmo2 = "vmo1\<lparr>m_cow_map := Some bm\<rparr>"
      have "AnonymousVMObject_handle_cow_fault nonvolatile copy mm vmo page_index
            = Returns (Continue, uncommit_user_physical_pages ?mm1 1,
                 if cow_pools mm pool = 1
                 then ?vmo2\<lparr>m_shared_committed_cow_pages := None\<rparr> else ?vmo2)"
        using len slot rc Some nv s True f3 ro
        by (simp add: AnonymousVMObject_handle_cow_fault_def)
      then show ?thesis using True hc_eq b f1 f3 Some
        by (simp add: cow_bit_def uncommit_user_physical_pages_def)
    qed
  qed
qed

text \<open>C4 does not hold on the code for a non-volatile page. Page 0 of a one-page object
  that no registration holds volatile lies in the one non-volatile range; its slot holds
  page 256 with reference count 1, and the pool (pool 0) holds one committed page. The
  fault returns Continue and clears the cow bit, but \<^verbatim>\<open>is_nonvolatile\<close> answers false
  for the page: no committed page goes back, the memory manager and its commit accounting
  are unchanged, and the drained-pool check is never made, so the pool reference stays.\<close>

theorem handle_cow_fault_nonvolatile_page_keeps_credit:
  "m_purgeable_ranges vmo_cow_pool = [] \<and>
   ranges_contain nonvolatile_one_page 0 \<and>
   m_physical_pages vmo_cow_pool ! 0 = Some (UserPage 256) \<and>
   ref_count mm_pool (UserPage 256) = 1 \<and>
   m_shared_committed_cow_pages vmo_cow_pool = Some 0 \<and>
   cow_pools mm_pool 0 = 1 \<and>
   \<not> fst (is_nonvolatile nonvolatile_one_page vmo_cow_pool 0) \<and>
   AnonymousVMObject_handle_cow_fault nonvolatile_one_page CopyDone mm_pool vmo_cow_pool 0
     = Returns (Continue, mm_pool,
         vmo_cow_pool\<lparr>m_volatile_ranges_cache := nonvolatile_one_page,
           m_volatile_ranges_cache_dirty := False, m_cow_map := Some [False]\<rparr>)"
  by (simp add: AnonymousVMObject_handle_cow_fault_def is_nonvolatile_def
        update_volatile_cache_def ranges_contain_def range_covers_def nonvolatile_one_page_def
        vmo_cow_pool_def vmo_cow_page_def mm_pool_def mm_one_page_def mm_boot_def
        set_should_cow_def ensure_cow_map_def page_count_def Let_def)

text \<open>The same branch in an object of two pages whose page 0 a registration holds
  volatile, with a pool holding the one committed page of the non-volatile page 1: the
  fault on the volatile page 0 gives the committed page back and drops the drained pool,
  the fault on the non-volatile page 1 gives nothing back.\<close>

lemma handle_cow_fault_volatile_page_returns_credit:
  "list_all (\<lambda>pr. is_volatile pr 0 \<and> \<not> is_volatile pr 1)
     (m_purgeable_ranges vmo_cow_pool_two_pages) \<and>
   \<not> ranges_contain nonvolatile_second_page 0 \<and>
   ranges_contain nonvolatile_second_page 1 \<and>
   (\<exists>mm' vmo'.
      AnonymousVMObject_handle_cow_fault nonvolatile_second_page CopyDone
          mm_pool_two_pages vmo_cow_pool_two_pages 0 = Returns (Continue, mm', vmo') \<and>
      cow_pools mm' 0 = 0 \<and> user_physical_pages_committed mm' = 0 \<and>
      m_shared_committed_cow_pages vmo' = None) \<and>
   (\<exists>vmo'.
      AnonymousVMObject_handle_cow_fault nonvolatile_second_page CopyDone
          mm_pool_two_pages vmo_cow_pool_two_pages 1
        = Returns (Continue, mm_pool_two_pages, vmo') \<and>
      m_shared_committed_cow_pages vmo' = Some 0)"
  by (simp add: AnonymousVMObject_handle_cow_fault_def is_nonvolatile_def
        update_volatile_cache_def ranges_contain_def range_covers_def is_volatile_def
        nonvolatile_second_page_def volatile_first_page_def vmo_cow_pool_two_pages_def
        mm_pool_two_pages_def mm_pool_def mm_one_page_def mm_boot_def
        set_should_cow_def ensure_cow_map_def page_count_def return_one_def
        uncommit_user_physical_pages_def Let_def)

subsection \<open>Purging\<close>

text \<open>C8: \<^verbatim>\<open>purge\<close> leaves every slot inside every volatile range holding the shared
  zero page and every other slot as it was; it returns the number of pages of the
  volatile ranges whose slot held a page other than the shared zero page; and every
  registration records as purged the ranges in which such a slot was found when the range
  was reached. The volatile ranges lie inside the object and hold no lazy-committed slot
  (the source asserts it), and mmap regions lie at user addresses.\<close>

theorem purge_replaces_volatile_pages:
  assumes bounds: "\<forall>r \<in> set volatile. range_base r + range_count r \<le> page_count vmo"
      and nolazy: "\<forall>r \<in> set volatile. \<forall>k. range_covers r k \<longrightarrow>
                     m_physical_pages vmo ! k \<noteq> Some LazyCommittedPage"
      and user: "list_all (mmap_in_user_range mm) regions"
  shows "\<exists>mm' vmo'.
     purge volatile regions mm vmo =
       Returns (length (filter (\<lambda>k. ranges_contain volatile k \<and>
                                    purgeable_slot (m_physical_pages vmo ! k))
                          [0..<page_count vmo]), mm', vmo') \<and>
     page_count vmo' = page_count vmo \<and>
     (\<forall>r \<in> set volatile. \<forall>k. range_covers r k \<longrightarrow>
        m_physical_pages vmo' ! k = Some SharedZeroPage) \<and>
     (\<forall>k < page_count vmo. \<not> ranges_contain volatile k \<longrightarrow>
        m_physical_pages vmo' ! k = m_physical_pages vmo ! k) \<and>
     m_purgeable_ranges vmo' =
       map (\<lambda>pr. pr\<lparr>purged_ranges :=
                       purged_ranges pr @ ranges_purged (m_physical_pages vmo) volatile\<rparr>)
         (m_purgeable_ranges vmo)"
proof -
  from purge_ranges_result[OF bounds nolazy user, of 0] obtain mm' vmo' where
    r: "purge volatile regions mm vmo =
       Returns (length (filter (\<lambda>k. ranges_contain volatile k \<and>
                                    purgeable_slot (m_physical_pages vmo ! k))
                          [0..<page_count vmo]), mm', vmo')"
    and sl: "m_physical_pages vmo' =
       map (\<lambda>k. if ranges_contain volatile k then Some SharedZeroPage
                 else m_physical_pages vmo ! k) [0..<page_count vmo]"
    and pg: "m_purgeable_ranges vmo' =
       map (\<lambda>pr. pr\<lparr>purged_ranges :=
                       purged_ranges pr @ ranges_purged (m_physical_pages vmo) volatile\<rparr>)
         (m_purgeable_ranges vmo)"
    unfolding purge_def by auto
  have pc: "page_count vmo' = page_count vmo" using sl by (simp add: page_count_def)
  have nth: "m_physical_pages vmo' ! k =
       (if ranges_contain volatile k then Some SharedZeroPage else m_physical_pages vmo ! k)"
    if "k < page_count vmo" for k
    using that sl by simp
  have inside: "m_physical_pages vmo' ! k = Some SharedZeroPage"
    if "r \<in> set volatile" "range_covers r k" for r k
  proof -
    have "k < page_count vmo" using bounds that by (auto simp: range_covers_def)
    moreover have "ranges_contain volatile k"
      using that by (auto simp: ranges_contain_def list_ex_iff)
    ultimately show ?thesis using nth by simp
  qed
  have inside': "\<forall>r \<in> set volatile. \<forall>k. range_covers r k \<longrightarrow>
        m_physical_pages vmo' ! k = Some SharedZeroPage"
    using inside by blast
  have outside: "\<forall>k < page_count vmo. \<not> ranges_contain volatile k \<longrightarrow>
        m_physical_pages vmo' ! k = m_physical_pages vmo ! k"
    using nth by simp
  show ?thesis
    by (rule exI[of _ mm'], rule exI[of _ vmo'], intro conjI)
       (rule r pc inside' outside pg)+
qed

text \<open>C8 at an object of two volatile pages, one of which holds a frame: one page is
  purged, both slots hold the shared zero page, and the registration records the range.\<close>

theorem purge_replaces_volatile_pages_witness:
  "(0::nat) + 2 \<le> page_count vmo_purgeable \<and>
   m_physical_pages vmo_purgeable ! 0 \<noteq> Some LazyCommittedPage \<and>
   m_physical_pages vmo_purgeable ! 1 \<noteq> Some LazyCommittedPage \<and>
   mmap_in_user_range mm_one_page region_private_rw \<and>
   (\<exists>mm' vmo'.
      purge volatile_two_pages [region_private_rw] mm_one_page vmo_purgeable
        = Returns (1, mm', vmo') \<and>
      m_physical_pages vmo' ! 0 = Some SharedZeroPage \<and>
      m_physical_pages vmo' ! 1 = Some SharedZeroPage \<and>
      map purged_ranges (m_purgeable_ranges vmo') =
        [[\<lparr>range_base = 0, range_count = 2, range_was_purged = True\<rparr>]])"
proof -
  have b: "\<forall>r \<in> set volatile_two_pages. range_base r + range_count r \<le> page_count vmo_purgeable"
    by (simp add: volatile_two_pages_def vmo_purgeable_def page_count_def)
  have l: "\<forall>r \<in> set volatile_two_pages. \<forall>k. range_covers r k \<longrightarrow>
             m_physical_pages vmo_purgeable ! k \<noteq> Some LazyCommittedPage"
    by (auto simp: volatile_two_pages_def vmo_purgeable_def range_covers_def nth_Cons'
          less_Suc_eq numeral_2_eq_2)
  have u: "list_all (mmap_in_user_range mm_one_page) [region_private_rw]"
    by (simp add: mmap_in_user_range_def region_private_rw_def Region_page_count_def
          PAGE_SIZE_def vaddr_from_page_index_def is_user_address_def mm_one_page_def
          mm_boot_def)
  have cov: "range_covers \<lparr>range_base = 0, range_count = 2, range_was_purged = False\<rparr> 0"
            "range_covers \<lparr>range_base = 0, range_count = 2, range_was_purged = False\<rparr> 1"
    by (simp_all add: range_covers_def)
  have cnt: "length (filter (\<lambda>k. ranges_contain volatile_two_pages k \<and>
                                    purgeable_slot (m_physical_pages vmo_purgeable ! k))
                          [0..<page_count vmo_purgeable]) = 1"
    by (simp add: volatile_two_pages_def vmo_purgeable_def page_count_def ranges_contain_def
          range_covers_def purgeable_slot_def numeral_2_eq_2)
  have rp: "ranges_purged (m_physical_pages vmo_purgeable) volatile_two_pages
              = [\<lparr>range_base = 0, range_count = 2, range_was_purged = True\<rparr>]"
    by (simp add: volatile_two_pages_def vmo_purgeable_def purgeable_slot_def numeral_2_eq_2)
  from purge_replaces_volatile_pages[OF b l u] cnt rp cov
  have "\<exists>mm' vmo'.
      purge volatile_two_pages [region_private_rw] mm_one_page vmo_purgeable
        = Returns (1, mm', vmo') \<and>
      m_physical_pages vmo' ! 0 = Some SharedZeroPage \<and>
      m_physical_pages vmo' ! 1 = Some SharedZeroPage \<and>
      map purged_ranges (m_purgeable_ranges vmo') =
        [[\<lparr>range_base = 0, range_count = 2, range_was_purged = True\<rparr>]]"
    by (auto simp: volatile_two_pages_def vmo_purgeable_def)
  then show ?thesis
    using u by (simp add: vmo_purgeable_def page_count_def)
qed

subsection \<open>Faults on pages that are not present\<close>



subsection \<open>Faults on inode-backed pages\<close>

text \<open>C5, as amended. \<^verbatim>\<open>handle_inode_fault\<close> reads one page of bytes from the inode
  at the offset of the page and pads a short read with zeros. With the lock taken it
  looks at the slot again. If the slot is filled in the meantime it remaps the page,
  allocates nothing, leaves the object as it found it, and returns Continue when the remap
  succeeded and OutOfMemory when it did not. If the slot is still empty and no page can
  be allocated it returns OutOfMemory. Otherwise it allocates a page that is not
  zero-filled, gives it the padded bytes, puts it in the slot, remaps and returns
  Continue.\<close>

theorem handle_inode_fault_publishes:
  assumes inode: "is_inode vmo"
      and idx: "idx = translate_to_vmobject_page r page_index_in_region" "idx < page_count vmo"
      and empty: "m_physical_pages vmo ! idx = None"
      and read: "read_bytes (idx * PAGE_SIZE) PAGE_SIZE = Inr bytes" "length bytes \<le> PAGE_SIZE"
      and oth: "others (mm, vmo) = (mm_locked, vmo_locked)" "page_count vmo_locked = page_count vmo"
               "cow_map_sized vmo_locked"
      and user: "list_all (mmap_in_user_range mm_locked) regions"
  shows "if m_physical_pages vmo_locked ! idx \<noteq> None
         then \<exists>ok mm'.
                handle_inode_fault read_bytes others mm vmo regions r page_index_in_region
                  = Returns (if ok then Continue else OutOfMemory, mm', vmo_locked) \<and>
                remap_vmobject_page mm_locked vmo_locked regions idx = Returns (ok, mm') \<and>
                only_page_tables_differ mm_locked mm'
         else if user_physical_pages_uncommitted mm_locked = 0
         then handle_inode_fault read_bytes others mm vmo regions r page_index_in_region
                = Returns (OutOfMemory, mm_locked, set_slot vmo_locked idx None)
         else \<exists>ok mm2 mm'.
                handle_inode_fault read_bytes others mm vmo regions r page_index_in_region
                  = Returns (Continue, mm',
                             set_slot vmo_locked idx (Some (UserPage (next_user_page mm_locked)))) \<and>
                page_bytes mm' (UserPage (next_user_page mm_locked))
                  = bytes @ replicate (PAGE_SIZE - length bytes) 0 \<and>
                ref_count mm' (UserPage (next_user_page mm_locked)) = 1 \<and>
                next_user_page mm' = next_user_page mm_locked + 1 \<and>
                remap_vmobject_page mm2
                  (set_slot vmo_locked idx (Some (UserPage (next_user_page mm_locked)))) regions idx
                  = Returns (ok, mm') \<and>
                only_page_tables_differ mm2 mm'"
proof -
  let ?h = "handle_inode_fault read_bytes others mm vmo regions r page_index_in_region"
  have len: "idx < length (m_physical_pages vmo)" "idx < length (m_physical_pages vmo_locked)"
    using idx(2) oth(2) by (simp_all add: page_count_def)
  have i1: "idx < page_count vmo_locked" using idx(2) oth(2) by simp
  show ?thesis
  proof (cases "m_physical_pages vmo_locked ! idx \<noteq> None")
    case True
    have c: "cow_map_sized vmo_locked \<or> is_sentinel_slot (m_physical_pages vmo_locked ! idx)"
      using oth(3) by simp
    from remap_vmobject_page_total[OF i1 True c user] obtain ok mm' where
      rm: "remap_vmobject_page mm_locked vmo_locked regions idx = Returns (ok, mm')"
      and o: "only_page_tables_differ mm_locked mm'" by blast
    have "?h = Returns (if ok then Continue else OutOfMemory, mm', vmo_locked)"
      using inode idx(1) len empty read oth(1) True rm
      by (simp add: handle_inode_fault_def Let_def remap_response_def)
    then show ?thesis using True rm o by auto
  next
    case False
    then have none: "m_physical_pages vmo_locked ! idx = None" by simp
    show ?thesis
    proof (cases "user_physical_pages_uncommitted mm_locked = 0")
      case True
      have "?h = Returns (OutOfMemory, mm_locked, set_slot vmo_locked idx None)"
        using inode idx(1) len empty read oth(1) none True
        by (simp add: handle_inode_fault_def Let_def allocate_user_physical_page_def)
      then show ?thesis using none True by simp
    next
      case avail: False
      let ?new = "UserPage (next_user_page mm_locked)"
      let ?buf = "bytes @ replicate (PAGE_SIZE - length bytes) 0"
      let ?mm2 = "fst (fresh_page (mm_locked\<lparr>user_physical_pages_uncommitted :=
                           user_physical_pages_uncommitted mm_locked - 1\<rparr>) False)"
      let ?mm3 = "?mm2\<lparr>page_bytes := (page_bytes ?mm2)(?new := ?buf)\<rparr>"
      let ?vmo2 = "set_slot vmo_locked idx (Some ?new)"
      have al: "allocate_user_physical_page mm_locked False = (?mm2, Some ?new)"
        using avail by (simp add: allocate_user_physical_page_def fresh_page_def Let_def)
      have ceil: "user_range_ceiling ?mm2 = user_range_ceiling mm_locked"
        by (simp add: fresh_page_def Let_def)
      have i2: "idx < page_count ?vmo2" using i1 by (simp add: set_slot_def page_count_def)
      have s2: "m_physical_pages ?vmo2 ! idx \<noteq> None"
        using len by (simp add: set_slot_def)
      have c2: "cow_map_sized ?vmo2 \<or> is_sentinel_slot (m_physical_pages ?vmo2 ! idx)"
        using oth(3) by (simp add: cow_map_sized_set_slot)
      have ceil3: "user_range_ceiling ?mm3 = user_range_ceiling mm_locked"
        using ceil by simp
      have u3: "list_all (mmap_in_user_range ?mm3) regions"
        using user mmap_in_user_range_ceiling[OF ceil3] by (simp add: list_all_iff)
      from remap_vmobject_page_total[OF i2 s2 c2 u3] obtain ok mm' where
        rm: "remap_vmobject_page ?mm3 ?vmo2 regions idx = Returns (ok, mm')"
        and o: "only_page_tables_differ ?mm3 mm'" by blast
      have res: "?h = Returns (Continue, mm', ?vmo2)"
        using inode idx(1) len empty read oth(1) none al rm
        by (simp add: handle_inode_fault_def Let_def)
      note f = only_page_tables_differ_fields[OF o]
      have b: "page_bytes mm' ?new = ?buf" unfolding f by simp
      have rcn: "ref_count mm' ?new = 1"
        unfolding f by (simp add: fresh_page_def Let_def)
      have nx: "next_user_page mm' = next_user_page mm_locked + 1"
        unfolding f by (simp add: fresh_page_def Let_def)
      have "\<exists>ok mm2 mm'. ?h = Returns (Continue, mm', ?vmo2) \<and>
                page_bytes mm' ?new = ?buf \<and> ref_count mm' ?new = 1 \<and>
                next_user_page mm' = next_user_page mm_locked + 1 \<and>
                remap_vmobject_page mm2 ?vmo2 regions idx = Returns (ok, mm') \<and>
                only_page_tables_differ mm2 mm'"
        using res b rcn nx rm o by blast
      then show ?thesis using none avail by simp
    qed
  qed
qed

text \<open>The amended C5 at a file of one byte: alone, the fault publishes page 256 holding
  the byte and zeros; when another fault filled the slot first, it allocates nothing.\<close>

theorem handle_inode_fault_publishes_witness:
  "is_inode vmo_inode_empty \<and> (0::nat) < page_count vmo_inode_empty \<and>
   m_physical_pages vmo_inode_empty ! 0 = None \<and>
   read_one_byte (0 * PAGE_SIZE) PAGE_SIZE = Inr [0x5A] \<and>
   length [0x5A :: 8 word] \<le> PAGE_SIZE \<and>
   mmap_in_user_range mm_boot region_shared_rw \<and>
   (\<exists>mm'. handle_inode_fault read_one_byte nobody_else mm_boot vmo_inode_empty
             [region_shared_rw] region_shared_rw 0
             = Returns (Continue, mm', set_slot vmo_inode_empty 0 (Some (UserPage 256))) \<and>
          page_bytes mm' (UserPage 256) = [0x5A] @ replicate (PAGE_SIZE - 1) 0) \<and>
   m_physical_pages (snd (racing_fault (mm_boot, vmo_inode_empty))) ! 0 = Some (UserPage 300) \<and>
   (\<exists>mm'. handle_inode_fault read_one_byte racing_fault mm_boot vmo_inode_empty
             [region_shared_rw] region_shared_rw 0
             = Returns (Continue, mm', set_slot vmo_inode_empty 0 (Some (UserPage 300))) \<and>
          next_user_page mm' = next_user_page mm_boot)"
proof -
  have v: "is_inode vmo_inode_empty" "(0::nat) < page_count vmo_inode_empty"
    "m_physical_pages vmo_inode_empty ! 0 = None" "cow_map_sized vmo_inode_empty"
    by (simp_all add: vmo_inode_empty_def is_inode_def page_count_def cow_map_sized_def)
  have i: "(0::nat) = translate_to_vmobject_page region_shared_rw 0"
    by (simp add: region_shared_rw_facts)
  have rd: "read_one_byte (0 * PAGE_SIZE) PAGE_SIZE = Inr [0x5A]"
    "length [0x5A :: 8 word] \<le> PAGE_SIZE"
    by (simp_all add: read_one_byte_def one_byte_fits)
  have u: "list_all (mmap_in_user_range mm_boot) [region_shared_rw]"
    by (simp add: mmap_in_user_range_def region_shared_rw_facts is_user_address_def
          mm_boot_def)
  have o1: "nobody_else (mm_boot, vmo_inode_empty) = (mm_boot, vmo_inode_empty)"
    by (simp add: nobody_else_def)
  have o2: "racing_fault (mm_boot, vmo_inode_empty)
              = (mm_boot, set_slot vmo_inode_empty 0 (Some (UserPage 300)))"
    by (simp add: racing_fault_def)
  have v2: "page_count (set_slot vmo_inode_empty 0 (Some (UserPage 300)))
              = page_count vmo_inode_empty"
    "cow_map_sized (set_slot vmo_inode_empty 0 (Some (UserPage 300)))"
    "m_physical_pages (set_slot vmo_inode_empty 0 (Some (UserPage 300))) ! 0
       = Some (UserPage 300)"
    by (simp_all add: set_slot_def vmo_inode_empty_def page_count_def cow_map_sized_def)
  have m: "user_physical_pages_uncommitted mm_boot \<noteq> 0" "next_user_page mm_boot = 256"
    by (simp_all add: mm_boot_def)
  have a: "\<exists>mm'. handle_inode_fault read_one_byte nobody_else mm_boot vmo_inode_empty
             [region_shared_rw] region_shared_rw 0
             = Returns (Continue, mm', set_slot vmo_inode_empty 0 (Some (UserPage 256))) \<and>
          page_bytes mm' (UserPage 256) = [0x5A] @ replicate (PAGE_SIZE - 1) 0"
    using handle_inode_fault_publishes[where read_bytes = read_one_byte
            and others = nobody_else and vmo = vmo_inode_empty and idx = 0
            and r = region_shared_rw and page_index_in_region = 0 and mm = mm_boot
            and regions = "[region_shared_rw]" and bytes = "[0x5A]" and mm_locked = mm_boot
            and vmo_locked = vmo_inode_empty, OF v(1) i v(2,3) rd o1 refl v(4) u] v(3) m
    by simp blast
  have rm: "remap_vmobject_page mm_boot (set_slot vmo_inode_empty 0 (Some (UserPage 300)))
              [region_shared_rw] 0
            = Returns (True, set_pte mm_boot (0, 0x00800000)
                \<lparr>pte_present = True, pte_writable = True, pte_user_allowed = True,
                 pte_cache_disabled = False, pte_execute_disabled = True,
                 pte_physical_page_base = 300\<rparr>)"
    by (simp add: remap_vmobject_page_def do_remap_vmobject_page_def region_shared_rw_facts
          physical_page_def set_slot_def vmo_inode_empty_def map_individual_page_impl_def
          Let_def mm_boot_def is_user_address_def is_shared_zero_page_def
          is_lazy_committed_page_def Region_should_cow_def is_anonymous_def paddr_def
          set_pte_def pte_clear_def)
  have b: "\<exists>mm'. handle_inode_fault read_one_byte racing_fault mm_boot vmo_inode_empty
             [region_shared_rw] region_shared_rw 0
             = Returns (Continue, mm', set_slot vmo_inode_empty 0 (Some (UserPage 300))) \<and>
          next_user_page mm' = next_user_page mm_boot"
    using handle_inode_fault_publishes[where read_bytes = read_one_byte
            and others = racing_fault and vmo = vmo_inode_empty and idx = 0
            and r = region_shared_rw and page_index_in_region = 0 and mm = mm_boot
            and regions = "[region_shared_rw]" and bytes = "[0x5A]" and mm_locked = mm_boot
            and vmo_locked = "set_slot vmo_inode_empty 0 (Some (UserPage 300))",
            OF v(1) i v(2,3) rd o2 v2(1,2) u] v2(3) rm
    by (auto simp: only_page_tables_differ_fields(4))
  show ?thesis using v(1,2,3) rd u a b o2 v2(3) by simp
qed

text \<open>C5 as stated fails when the remap fails: the slot is filled by another fault
  during the read, \<^verbatim>\<open>ensure_pte\<close> finds no entry, and the response is OutOfMemory, not
  Continue.\<close>

theorem handle_inode_fault_remap_fails_counterexample:
  "m_physical_pages (snd (racing_fault (mm_no_page_tables, vmo_inode_empty))) ! 0
     = Some (UserPage 300) \<and>
   handle_inode_fault read_one_byte racing_fault mm_no_page_tables vmo_inode_empty
     [region_shared_rw] region_shared_rw 0
     = Returns (OutOfMemory, mm_no_page_tables,
                set_slot vmo_inode_empty 0 (Some (UserPage 300)))"
  by (simp add: handle_inode_fault_def Let_def vmo_inode_empty_def is_inode_def
        region_shared_rw_facts read_one_byte_def one_byte_fits racing_fault_def set_slot_def
        remap_vmobject_page_def do_remap_vmobject_page_def physical_page_def
        map_individual_page_impl_def mm_no_page_tables_def mm_boot_def is_user_address_def
        remap_response_def)

subsection \<open>Copy-on-write decision\<close>

text \<open>C7: \<^verbatim>\<open>should_cow(page, is_shared)\<close> is true exactly when the slot holds a sentinel
  page (SharedZero or LazyCommitted), or \<open>is_shared\<close> is false and the cow bit of the page
  is set. It holds for every page index of the VM object, the cow bitmap (when there is
  one) having one bit per page.\<close>

theorem should_cow_iff:
  assumes "page_index < page_count vmo" and "cow_map_sized vmo"
  shows "should_cow vmo page_index is_shared =
           Returns (is_sentinel_slot (m_physical_pages vmo ! page_index)
                    \<or> (\<not> is_shared \<and> cow_bit vmo page_index))"
  using assms
  by (auto simp: should_cow_def page_count_def cow_map_sized_def is_sentinel_slot_def
        cow_bit_def Let_def split: option.splits)

text \<open>C7 at a page that holds a frame and has its cow bit set: copy-on-write for a
  private mapping, none for a shared one.\<close>

theorem should_cow_iff_witness:
  "(0::nat) < page_count vmo_cow_page \<and> cow_map_sized vmo_cow_page \<and>
   should_cow vmo_cow_page 0 False = Returns True \<and>
   should_cow vmo_cow_page 0 True = Returns False"
  using should_cow_iff[of 0 vmo_cow_page False] should_cow_iff[of 0 vmo_cow_page True]
  by (simp add: vmo_cow_page_def page_count_def cow_map_sized_def is_sentinel_slot_def
        cow_bit_def)

subsection \<open>Resident and dirty amounts\<close>

text \<open>C10: for a region whose VM object is not inode-backed, \<^verbatim>\<open>amount_dirty\<close> returns
  what \<^verbatim>\<open>amount_resident\<close> returns: the page size times the number of the region's
  slots that hold a page which is not a sentinel. The region's slice lies inside the
  VM object.\<close>

theorem amount_dirty_is_resident:
  assumes "\<not> is_inode vmo"
      and "first_page_index r + Region_page_count r \<le> page_count vmo"
  shows "amount_dirty d vmo r = amount_resident vmo r \<and>
         amount_resident vmo r =
           Returns (PAGE_SIZE * length (filter
             (\<lambda>i. resident_slot (m_physical_pages vmo ! (first_page_index r + i)))
             [0..<Region_page_count r]))"
  using assms amount_resident_loop_eq[of r 0 "Region_page_count r" vmo 0]
  by (simp add: amount_dirty_def amount_resident_def)

text \<open>C10 at a region over one page that holds a frame: one page is dirty.\<close>

theorem amount_dirty_is_resident_witness:
  "\<not> is_inode vmo_cow_page \<and>
   first_page_index region_private_rw + Region_page_count region_private_rw
     \<le> page_count vmo_cow_page \<and>
   amount_dirty 0 vmo_cow_page region_private_rw = Returns PAGE_SIZE"
  using amount_dirty_is_resident[of vmo_cow_page region_private_rw 0]
  by (simp add: vmo_cow_page_def region_private_rw_def is_inode_def first_page_index_def
        Region_page_count_def PAGE_SIZE_def page_count_def resident_slot_def
        is_sentinel_slot_def)

end
